theory Spec2Isabelle
  imports Complex_Main
begin

section \<open>The drawing-to-physics layer of nacltoons (physics_layer.cc)\<close>

text \<open>
  A shallow embedding of \<^verbatim>\<open>src/nacltoons/src/physics_layer.cc\<close>.

  Conventions of the embedding:
  \<^item> a C++ \<^verbatim>\<open>float\<close> is a \<^typ>\<open>real\<close>: rounding, overflow and NaN are not modelled;
  \<^item> a \<^verbatim>\<open>CCPoint\<close>, a \<^verbatim>\<open>CCSize\<close> and a \<^verbatim>\<open>b2Vec2\<close> are pairs of reals;
  \<^item> a scene-graph node (\<^verbatim>\<open>CCNode*\<close>) is its address, a natural number, and the
    visibility flags of all nodes live in one store, so that two pointers to the same
    node see the same flag;
  \<^item> a failed \<^verbatim>\<open>assert\<close> and a null dereference are error values;
  \<^item> the functions of cocos2d and Box2D that the file calls (\<^verbatim>\<open>ccpDistance\<close>,
    \<^verbatim>\<open>b2Mul\<close>, \<^verbatim>\<open>SetAsBox\<close>, \<^verbatim>\<open>CreateFixture\<close>, \<^verbatim>\<open>addChild\<close>, ...) are
    written out as those libraries define them.
\<close>

subsection \<open>Coordinate conversion (lines 7-11)\<close>

type_synonym CCPoint = "real \<times> real"
type_synonym CCSize = "real \<times> real"
type_synonym b2Vec2 = "real \<times> real"

definition PTM_RATIO :: real where
  "PTM_RATIO = 32"

definition SCREEN_TO_WORLD :: "real \<Rightarrow> real" where
  "SCREEN_TO_WORLD n = n / PTM_RATIO"

definition WORLD_TO_SCREEN :: "real \<Rightarrow> real" where
  "WORLD_TO_SCREEN n = n * PTM_RATIO"

definition DEFAULT_DENSITY :: real where
  "DEFAULT_DENSITY = 1"

definition DEFAULT_FRICTION :: real where
  "DEFAULT_FRICTION = 2 / 10"

definition DEFAULT_RESTITUTION :: real where
  "DEFAULT_RESTITUTION = 1 / 10"

text \<open>\<^verbatim>\<open>FLT_MAX\<close> of \<^verbatim>\<open>float.h\<close>: the largest finite single-precision value.\<close>

definition FLT_MAX :: real where
  "FLT_MAX = (2 ^ 24 - 1) * 2 ^ 104"

text \<open>The conversion of a \<^verbatim>\<open>float\<close> to \<^verbatim>\<open>int\<close> truncates towards zero.\<close>

definition float_to_int :: "real \<Rightarrow> int" where
  "float_to_int v = (if 0 \<le> v then \<lfloor>v\<rfloor> else \<lceil>v\<rceil>)"

text \<open>cocos2d's \<^verbatim>\<open>ccpDistance\<close>: the Euclidean length of the difference.\<close>

definition ccpDistance :: "CCPoint \<Rightarrow> CCPoint \<Rightarrow> real" where
  "ccpDistance a b = sqrt ((fst a - fst b) * (fst a - fst b) + (snd a - snd b) * (snd a - snd b))"

text \<open>
  The C library's \<^verbatim>\<open>atan2\<close>, by its mathematical definition (the angle of the point
  \<open>(x, y)\<close> in \<open>(-\<pi>, \<pi>]\<close>, and \<open>0\<close> at the origin).
\<close>

definition atan2 :: "real \<Rightarrow> real \<Rightarrow> real" where
  "atan2 y x =
     (if 0 < x then arctan (y / x)
      else if x < 0 \<and> 0 \<le> y then arctan (y / x) + pi
      else if x < 0 then arctan (y / x) - pi
      else if 0 < y then pi / 2
      else if y < 0 then - (pi / 2)
      else 0)"

subsection \<open>Box2D bodies, fixtures and shapes\<close>

datatype b2Shape =
    b2CircleShape (m_p: b2Vec2) (m_radius: real)
  | b2PolygonShape (m_vertices: "b2Vec2 list")

record b2Fixture =
  shape :: b2Shape
  density :: real
  friction :: real
  restitution :: real

text \<open>
  A \<^verbatim>\<open>b2Transform\<close> is a translation \<open>p\<close> and a rotation \<open>q\<close> stored as the pair
  (sine, cosine) of the angle, as Box2D's \<^verbatim>\<open>b2Rot\<close> does.
\<close>

record b2Transform =
  xf_p :: b2Vec2
  xf_q :: "real \<times> real"

definition b2Rot :: "real \<Rightarrow> real \<times> real" where
  "b2Rot angle = (sin angle, cos angle)"

text \<open>Box2D's \<^verbatim>\<open>b2Mul(const b2Transform&, const b2Vec2&)\<close>.\<close>

definition b2Mul :: "b2Transform \<Rightarrow> b2Vec2 \<Rightarrow> b2Vec2" where
  "b2Mul T v =
     (let s = fst (xf_q T); c = snd (xf_q T)
      in ((c * fst v - s * snd v) + fst (xf_p T), (s * fst v + c * snd v) + snd (xf_p T)))"

text \<open>
  A body: its transform (\<^verbatim>\<open>GetTransform\<close>; \<^verbatim>\<open>GetPosition\<close> is its translation)
  and its fixture list. \<^verbatim>\<open>b2Body::CreateFixture\<close> puts the new fixture at the head
  of the list, which \<^verbatim>\<open>GetFixtureList\<close>/\<^verbatim>\<open>GetNext\<close> walk from the head.
\<close>

record b2Body =
  m_xf :: b2Transform
  m_fixtureList :: "b2Fixture list"

definition GetPosition :: "b2Body \<Rightarrow> b2Vec2" where
  "GetPosition body = xf_p (m_xf body)"

definition CreateFixture :: "b2Body \<Rightarrow> b2Fixture \<Rightarrow> b2Body" where
  "CreateFixture body f = body\<lparr>m_fixtureList := f # m_fixtureList body\<rparr>"

text \<open>\<^verbatim>\<open>b2World::CreateBody\<close> for a definition with the given position and angle 0.\<close>

definition CreateBody :: "b2Vec2 \<Rightarrow> b2Body" where
  "CreateBody pos = \<lparr>m_xf = \<lparr>xf_p = pos, xf_q = b2Rot 0\<rparr>, m_fixtureList = []\<rparr>"

text \<open>
  \<^verbatim>\<open>b2PolygonShape::SetAsBox(hx, hy, center, angle)\<close>: the four corners of the
  axis-aligned box, each moved by the transform (center, angle).
\<close>

definition SetAsBox :: "real \<Rightarrow> real \<Rightarrow> b2Vec2 \<Rightarrow> real \<Rightarrow> b2Shape" where
  "SetAsBox hx hy center angle =
     (let T = \<lparr>xf_p = center, xf_q = b2Rot angle\<rparr>
      in b2PolygonShape (map (b2Mul T) [(- hx, - hy), (hx, - hy), (hx, hy), (- hx, hy)]))"

subsection \<open>The layer\<close>

type_synonym node = nat

record CCRenderTexture =
  rt_node :: node
  rt_stamps :: "CCPoint list"

record CCRect =
  origin :: CCPoint
  rect_size :: CCSize

record CCPhysicsSprite =
  sp_node :: node
  sp_texture :: "CCPoint list"
  sp_rect :: CCRect
  sp_body :: b2Body
  sp_anchor :: CCPoint

text \<open>
  The fields of \<^verbatim>\<open>PhysicsLayer\<close> and what it reaches through the director and the
  scene graph: the window size, its children (\<^verbatim>\<open>getChildren()\<close> is \<^verbatim>\<open>NULL\<close> until a
  first child is added), the visibility of every node, and the next free node address.
  \<open>brush_height\<close> is \<^verbatim>\<open>brush_->boundingBox().size.height\<close>.

  The fields are declared in \<^verbatim>\<open>physics_layer.h\<close>. \<open>brush_radius\<close> is a \<^verbatim>\<open>float\<close>,
  as the value \<^verbatim>\<open>MAX(brush_size.height/2, brush_size.width/2)\<close> assigned to it is; a
  radius held in an integer field is the case of an integral \<open>brush_radius\<close>.
  \<open>sprites\<close> and \<open>box2d_world\<close> hold the sprite objects and the bodies created so far.
\<close>

record PhysicsLayer =
  current_touch_id :: int
  render_target :: "CCRenderTexture option"
  points_being_drawn :: "CCPoint list"
  brush_radius :: real
  brush_height :: real
  box2d_density :: real
  box2d_restitution :: real
  box2d_friction :: real
  debug_enabled :: bool
  box2d_world :: "b2Body list"
  sprites :: "CCPhysicsSprite list"
  win_size :: CCSize
  children :: "node list option"
  visible :: "node \<Rightarrow> bool"
  next_node :: node

datatype error = AssertionFailed | NullDereference

record CCTouch =
  touch_id :: int
  touch_location :: CCPoint
  touch_previous :: CCPoint

subsection \<open>Scene-graph operations used by the layer\<close>

text \<open>\<^verbatim>\<open>CCNode::addChild\<close> appends to the child array, allocating it on first use.\<close>

definition addChild :: "node \<Rightarrow> PhysicsLayer \<Rightarrow> PhysicsLayer" where
  "addChild n L =
     L\<lparr>children := Some (case children L of None \<Rightarrow> [n] | Some cs \<Rightarrow> cs @ [n])\<rparr>"

definition removeChild :: "node \<Rightarrow> PhysicsLayer \<Rightarrow> PhysicsLayer" where
  "removeChild n L = L\<lparr>children := map_option (remove1 n) (children L)\<rparr>"

definition setVisible :: "node \<Rightarrow> bool \<Rightarrow> PhysicsLayer \<Rightarrow> PhysicsLayer" where
  "setVisible n v L = L\<lparr>visible := (visible L)(n := v)\<rparr>"

subsection \<open>PhysicsLayer::PhysicsLayer and PhysicsLayer::init (lines 24-53)\<close>

text \<open>
  The state after the constructor and \<^verbatim>\<open>init\<close>, for a window of size \<open>ws\<close> and a brush
  image of size \<open>bs\<close>: \<^verbatim>\<open>brush_radius_ = MAX(brush_size.height/2, brush_size.width/2)\<close>.
\<close>

definition init :: "CCSize \<Rightarrow> CCSize \<Rightarrow> (node \<Rightarrow> bool) \<Rightarrow> PhysicsLayer" where
  "init ws bs vis =
     \<lparr>current_touch_id = - 1,
      render_target = None,
      points_being_drawn = [],
      brush_radius = max (snd bs / 2) (fst bs / 2),
      brush_height = snd bs,
      box2d_density = DEFAULT_DENSITY,
      box2d_restitution = DEFAULT_RESTITUTION,
      box2d_friction = DEFAULT_FRICTION,
      debug_enabled = False,
      box2d_world = [],
      sprites = [],
      win_size = ws,
      children = None,
      visible = vis,
      next_node = 0\<rparr>"

subsection \<open>PhysicsLayer::CreateRenderTarget (lines 69-79)\<close>

definition CreateRenderTarget :: "PhysicsLayer \<Rightarrow> error + PhysicsLayer" where
  "CreateRenderTarget L =
     (if render_target L \<noteq> None then Inl AssertionFailed
      else
        let n = next_node L
        in Inr (addChild n
                 (L\<lparr>render_target := Some \<lparr>rt_node = n, rt_stamps = []\<rparr>,
                    visible := (visible L)(n := True),
                    next_node := Suc n\<rparr>)))"

subsection \<open>PhysicsLayer::ToggleDebug (lines 126-140)\<close>

definition ToggleDebug_child :: "PhysicsLayer \<Rightarrow> node \<Rightarrow> PhysicsLayer" where
  "ToggleDebug_child L child =
     (if Some child = map_option rt_node (render_target L) then L
      else setVisible child (\<not> debug_enabled L) L)"

definition ToggleDebug :: "PhysicsLayer \<Rightarrow> PhysicsLayer" where
  "ToggleDebug L =
     (let L1 = L\<lparr>debug_enabled := \<not> debug_enabled L\<rparr>
      in case children L1 of
           None \<Rightarrow> L1
         | Some cs \<Rightarrow> foldl ToggleDebug_child L1 cs)"

subsection \<open>PhysicsLayer::DrawPoint and PhysicsLayer::DrawLine (lines 146-190)\<close>

text \<open>
  Drawing the brush into the render target (\<^verbatim>\<open>brush_->setPosition(p); brush_->visit()\<close>
  between \<^verbatim>\<open>begin()\<close> and \<^verbatim>\<open>end()\<close>) appends \<open>p\<close> to the stamps of the target.
\<close>

definition DrawPoint :: "CCPoint \<Rightarrow> PhysicsLayer \<Rightarrow> error + PhysicsLayer" where
  "DrawPoint location L =
     (case render_target L of
        None \<Rightarrow> Inl NullDereference
      | Some rt \<Rightarrow>
          Inr (L\<lparr>render_target := Some (rt\<lparr>rt_stamps := rt_stamps rt @ [location]\<rparr>),
                 points_being_drawn := points_being_drawn L @ [location]\<rparr>))"

text \<open>The position of the brush in iteration \<open>i\<close> of the loop of \<^verbatim>\<open>DrawLine\<close>.\<close>

definition DrawLine_position :: "CCPoint \<Rightarrow> CCPoint \<Rightarrow> real \<Rightarrow> nat \<Rightarrow> CCPoint" where
  "DrawLine_position start finish distance i =
     (let difx = fst finish - fst start;
          dify = snd finish - snd start;
          delta = real i / distance
      in (fst start + difx * delta, snd start + dify * delta))"

definition DrawLine :: "CCPoint \<Rightarrow> CCPoint \<Rightarrow> PhysicsLayer \<Rightarrow> error + PhysicsLayer" where
  "DrawLine start finish L =
     (let distance = ccpDistance start finish
      in case render_target L of
           None \<Rightarrow> Inl NullDereference
         | Some rt \<Rightarrow>
             Inr (L\<lparr>render_target :=
                      Some (rt\<lparr>rt_stamps := rt_stamps rt @
                                 map (DrawLine_position start finish distance)
                                     [0 ..< nat (float_to_int (distance + 1 / 2))]\<rparr>),
                    points_being_drawn := points_being_drawn L @ [finish]\<rparr>))"

subsection \<open>PhysicsLayer::ccTouchBegan and PhysicsLayer::ccTouchMoved (lines 192-212)\<close>

definition ccTouchBegan :: "CCTouch \<Rightarrow> PhysicsLayer \<Rightarrow> error + (bool \<times> PhysicsLayer)" where
  "ccTouchBegan touch L =
     (if current_touch_id L \<noteq> - 1 then Inr (False, L)
      else
        let L1 = L\<lparr>current_touch_id := touch_id touch\<rparr>
        in case (if render_target L1 = None then CreateRenderTarget L1 else Inr L1) of
             Inl e \<Rightarrow> Inl e
           | Inr L2 \<Rightarrow>
               (case DrawPoint (touch_location touch) (L2\<lparr>points_being_drawn := []\<rparr>) of
                  Inl e \<Rightarrow> Inl e
                | Inr L3 \<Rightarrow> Inr (True, L3)))"

definition ccTouchMoved :: "CCTouch \<Rightarrow> PhysicsLayer \<Rightarrow> error + PhysicsLayer" where
  "ccTouchMoved touch L =
     (if touch_id touch \<noteq> current_touch_id L then Inl AssertionFailed
      else DrawLine (touch_previous touch) (touch_location touch) L)"

subsection \<open>CalcBodyBounds (lines 228-280)\<close>

text \<open>The four running extremes \<open>(minX, maxX, minY, maxY)\<close> of the loop.\<close>

type_synonym extremes = "real \<times> real \<times> real \<times> real"

text \<open>The four updates made for one candidate: low and high value on each axis.\<close>

definition extend_extremes :: "real \<Rightarrow> real \<Rightarrow> real \<Rightarrow> real \<Rightarrow> extremes \<Rightarrow> extremes" where
  "extend_extremes lox hix loy hiy e =
     (case e of (minX, maxX, minY, maxY) \<Rightarrow>
        (if lox < minX then lox else minX,
         if hix > maxX then hix else maxX,
         if loy < minY then loy else minY,
         if hiy > maxY then hiy else maxY))"

text \<open>The body of the loop over the fixtures: a circle, or else a polygon.\<close>

definition CalcBodyBounds_fixture :: "b2Transform \<Rightarrow> extremes \<Rightarrow> b2Fixture \<Rightarrow> extremes" where
  "CalcBodyBounds_fixture xform e f =
     (case shape f of
        b2CircleShape p radius \<Rightarrow>
          (let center = b2Mul xform p
           in extend_extremes (fst center - radius) (fst center + radius)
                              (snd center - radius) (snd center + radius) e)
      | b2PolygonShape vs \<Rightarrow>
          foldl (\<lambda>e' v. let vertex = b2Mul xform v
                         in extend_extremes (fst vertex) (fst vertex) (snd vertex) (snd vertex) e')
                e vs)"

definition CalcBodyBounds_extremes :: "b2Body \<Rightarrow> extremes" where
  "CalcBodyBounds_extremes body =
     foldl (CalcBodyBounds_fixture (m_xf body)) (FLT_MAX, 0, FLT_MAX, 0) (m_fixtureList body)"

text \<open>\<open>s\<close> is the window size that the director reports.\<close>

definition CalcBodyBounds :: "CCSize \<Rightarrow> b2Body \<Rightarrow> CCRect" where
  "CalcBodyBounds s body =
     (case CalcBodyBounds_extremes body of (minX0, maxX0, minY0, maxY0) \<Rightarrow>
        (let maxX = WORLD_TO_SCREEN maxX0;
             minX = WORLD_TO_SCREEN minX0;
             maxY = WORLD_TO_SCREEN maxY0;
             minY = WORLD_TO_SCREEN minY0;
             width = maxX - minX;
             height = maxY - minY;
             remY = snd s - maxY
         in \<lparr>origin = (minX, remY), rect_size = (width, height)\<rparr>))"

subsection \<open>PhysicsLayer::CreatePhysicsSprite (lines 282-320)\<close>

definition CreatePhysicsSprite ::
  "b2Body \<Rightarrow> PhysicsLayer \<Rightarrow> error + (CCPhysicsSprite \<times> PhysicsLayer)" where
  "CreatePhysicsSprite body L =
     (case render_target L of
        None \<Rightarrow> Inl NullDereference
      | Some rt \<Rightarrow>
          (let tex = rt_stamps rt;
               r0 = CalcBodyBounds (win_size L) body;
               sprite_rect =
                 \<lparr>origin = (fst (origin r0) - brush_radius L, snd (origin r0) - brush_radius L),
                  rect_size = (fst (rect_size r0) + brush_radius L,
                               snd (rect_size r0) + brush_radius L)\<rparr>;
               s = win_size L;
               body_pos = (WORLD_TO_SCREEN (fst (GetPosition body)),
                           WORLD_TO_SCREEN (snd (GetPosition body)));
               anchorX = fst body_pos - fst (origin sprite_rect);
               anchorY = snd body_pos + snd (origin sprite_rect) + snd (rect_size sprite_rect)
                         - snd s;
               n = next_node L;
               sprite =
                 \<lparr>sp_node = n, sp_texture = tex, sp_rect = sprite_rect, sp_body = body,
                  sp_anchor = (anchorX / fst (rect_size sprite_rect),
                               anchorY / snd (rect_size sprite_rect))\<rparr>
           in Inr (sprite,
                   L\<lparr>sprites := sprites L @ [sprite],
                     visible := (visible L)(n := True),
                     next_node := Suc n\<rparr>)))"

subsection \<open>Adding shapes to a body (lines 367-407)\<close>

definition AddShapeToBody :: "PhysicsLayer \<Rightarrow> b2Body \<Rightarrow> b2Shape \<Rightarrow> b2Body" where
  "AddShapeToBody L body sh =
     CreateFixture body
       \<lparr>shape = sh, density = box2d_density L, friction = box2d_friction L,
        restitution = box2d_restitution L\<rparr>"

definition AddSphereToBody :: "PhysicsLayer \<Rightarrow> b2Body \<Rightarrow> CCPoint \<Rightarrow> b2Body" where
  "AddSphereToBody L body location =
     AddShapeToBody L body
       (b2CircleShape
          (SCREEN_TO_WORLD (fst location) - fst (GetPosition body),
           SCREEN_TO_WORLD (snd location) - snd (GetPosition body))
          (SCREEN_TO_WORLD (brush_radius L)))"

text \<open>
  \<^verbatim>\<open>abs(distance)\<close> is the absolute value of the \<^verbatim>\<open>float\<close>, and \<^verbatim>\<open>atan2\<close> the
  function defined above.
\<close>

definition AddLineToBody :: "PhysicsLayer \<Rightarrow> b2Body \<Rightarrow> CCPoint \<Rightarrow> CCPoint \<Rightarrow> b2Body" where
  "AddLineToBody L body start finish =
     (let distance = ccpDistance start finish;
          sx = fst start; sy = snd start;
          ex = fst finish; ey = snd finish;
          dist_x = sx - ex;
          dist_y = sy - ey;
          angle = atan2 dist_y dist_x;
          posx = SCREEN_TO_WORLD ((sx + ex) / 2) - fst (GetPosition body);
          posy = SCREEN_TO_WORLD ((sy + ey) / 2) - snd (GetPosition body);
          width = SCREEN_TO_WORLD \<bar>distance\<bar>;
          height = SCREEN_TO_WORLD (brush_height L)
      in AddShapeToBody L body (SetAsBox (width / 2) (height / 2) (posx, posy) angle))"

subsection \<open>PhysicsLayer::CreatePhysicsBody (lines 322-365)\<close>

text \<open>\<^verbatim>\<open>const int min_box_length = brush_radius_;\<close>\<close>

definition min_box_length :: "PhysicsLayer \<Rightarrow> int" where
  "min_box_length L = float_to_int (brush_radius L)"

text \<open>
  The loop of lines 348-361. An iterator is its offset from \<^verbatim>\<open>begin()\<close>; \<open>iter\<close> starts
  at 1 and the loop ends when it reaches \<^verbatim>\<open>end()\<close>, the offset \<open>length pts\<close> (for a
  non-empty sequence \<open>iter\<close> never exceeds it, so \<^verbatim>\<open>iter != end()\<close> is \<open>iter < length pts\<close>;
  the empty sequence is stopped by the \<^verbatim>\<open>assert\<close> before the loop). The offset
  of \<^verbatim>\<open>end() - 1\<close> is the integer \<open>int (length pts) - 1\<close>, negative when it lies before
  the start of the sequence. Beside the body, the loop returns a log with the value of
  \<^verbatim>\<open>end() - 1\<close> at each evaluation of the comparison of line 356, in order.
\<close>

function CreatePhysicsBody_loop ::
  "PhysicsLayer \<Rightarrow> CCPoint list \<Rightarrow> nat \<Rightarrow> CCPoint \<Rightarrow> b2Body \<Rightarrow> int list \<Rightarrow> b2Body \<times> int list" where
  "CreatePhysicsBody_loop L pts iter start_point body evals =
     (if length pts \<le> iter then (body, evals)
      else
        let end_point = pts ! iter;
            distance = ccpDistance start_point end_point
        in if distance < real_of_int (min_box_length L) then
             (if int iter \<noteq> int (length pts) - 1
              then CreatePhysicsBody_loop L pts (Suc iter) start_point body
                     (evals @ [int (length pts) - 1])
              else CreatePhysicsBody_loop L pts (Suc iter) end_point
                     (AddLineToBody L body start_point end_point)
                     (evals @ [int (length pts) - 1]))
           else CreatePhysicsBody_loop L pts (Suc iter) end_point
                  (AddLineToBody L body start_point end_point) evals)"
  by pat_completeness auto
termination
  by (relation "measure (\<lambda>(L, pts, iter, start_point, body, evals). length pts - iter)") auto

text \<open>
  The body and the log of one call, for the points \<open>pts\<close> of the stroke. Both asserts
  of the source are the same check.
\<close>

definition CreatePhysicsBody_run ::
  "PhysicsLayer \<Rightarrow> CCPoint list \<Rightarrow> error + (b2Body \<times> int list)" where
  "CreatePhysicsBody_run L pts =
     (if length pts = 0 then Inl AssertionFailed
      else
        let start_point = hd pts;
            body0 = CreateBody (SCREEN_TO_WORLD (fst start_point),
                                SCREEN_TO_WORLD (snd start_point));
            body1 = AddSphereToBody L body0 start_point;
            body2 = AddSphereToBody L body1 (last pts)
        in Inr (CreatePhysicsBody_loop L pts 1 start_point body2 []))"

definition CreatePhysicsBody :: "PhysicsLayer \<Rightarrow> error + (b2Body \<times> PhysicsLayer)" where
  "CreatePhysicsBody L =
     (case CreatePhysicsBody_run L (points_being_drawn L) of
        Inl e \<Rightarrow> Inl e
      | Inr (body, evals) \<Rightarrow>
          Inr (body, L\<lparr>box2d_world := box2d_world L @ [body], points_being_drawn := []\<rparr>))"

subsection \<open>PhysicsLayer::ccTouchEnded (lines 214-226)\<close>

definition ccTouchEnded :: "CCTouch \<Rightarrow> PhysicsLayer \<Rightarrow> error + PhysicsLayer" where
  "ccTouchEnded touch L =
     (if touch_id touch \<noteq> current_touch_id L then Inl AssertionFailed
      else
        case CreatePhysicsBody L of
          Inl e \<Rightarrow> Inl e
        | Inr (body, L1) \<Rightarrow>
            (case CreatePhysicsSprite body L1 of
               Inl e \<Rightarrow> Inl e
             | Inr (sprite, L2) \<Rightarrow>
                 (let L3 = addChild (sp_node sprite) L2;
                      L4 = (if debug_enabled L3 then setVisible (sp_node sprite) False L3 else L3);
                      L5 = (case render_target L4 of
                              None \<Rightarrow> L4
                            | Some rt \<Rightarrow> removeChild (rt_node rt) L4)
                  in Inr (L5\<lparr>render_target := None, current_touch_id := - 1\<rparr>))))"

subsection \<open>Observations on bodies and layers used in the properties\<close>

definition is_circle :: "b2Fixture \<Rightarrow> bool" where
  "is_circle f = (case shape f of b2CircleShape p r \<Rightarrow> True | b2PolygonShape vs \<Rightarrow> False)"

definition is_box :: "b2Fixture \<Rightarrow> bool" where
  "is_box f = (case shape f of b2CircleShape p r \<Rightarrow> False | b2PolygonShape vs \<Rightarrow> True)"

definition circle_fixtures :: "b2Body \<Rightarrow> b2Fixture list" where
  "circle_fixtures body = filter is_circle (m_fixtureList body)"

definition box_fixtures :: "b2Body \<Rightarrow> b2Fixture list" where
  "box_fixtures body = filter is_box (m_fixtureList body)"

text \<open>
  The width of a box made by \<open>SetAsBox\<close>: the length of the edge between its first two
  corners, which are the images of \<open>(-hx, -hy)\<close> and \<open>(hx, -hy)\<close>.
\<close>

definition box_width :: "b2Fixture \<Rightarrow> real" where
  "box_width f =
     (case shape f of
        b2CircleShape p r \<Rightarrow> 0
      | b2PolygonShape vs \<Rightarrow> (case vs of v0 # v1 # rest \<Rightarrow> ccpDistance v0 v1 | _ \<Rightarrow> 0))"

text \<open>
  The fixture that \<open>AddSphereToBody\<close> makes for the first point of a stroke: a circle at
  the body's origin with the brush's radius in simulation units.
\<close>

definition cap_fixture :: "PhysicsLayer \<Rightarrow> b2Fixture" where
  "cap_fixture L =
     \<lparr>shape = b2CircleShape (0, 0) (SCREEN_TO_WORLD (brush_radius L)),
      density = box2d_density L, friction = box2d_friction L,
      restitution = box2d_restitution L\<rparr>"

text \<open>The stamps in the render target of a layer (none without a target).\<close>

definition stamps :: "PhysicsLayer \<Rightarrow> CCPoint list" where
  "stamps L = (case render_target L of None \<Rightarrow> [] | Some rt \<Rightarrow> rt_stamps rt)"

text \<open>
  A straight stroke of \<open>N\<close> evenly spaced points: it starts at \<open>p\<close> and each point is the
  one before it moved by \<open>d\<close>.
\<close>

definition straight_stroke :: "CCPoint \<Rightarrow> CCPoint \<Rightarrow> nat \<Rightarrow> CCPoint list" where
  "straight_stroke p d N = map (\<lambda>k. (fst p + real k * fst d, snd p + real k * snd d)) [0 ..< N]"

text \<open>
  The children whose visibility \<open>ToggleDebug\<close> sets all agree with the debug flag:
  each child other than the render target is visible exactly when debugging is off.
\<close>

definition children_follow_debug :: "PhysicsLayer \<Rightarrow> bool" where
  "children_follow_debug L =
     (case children L of
        None \<Rightarrow> True
      | Some cs \<Rightarrow>
          list_all (\<lambda>c. Some c = map_option rt_node (render_target L)
                        \<or> visible L c = (\<not> debug_enabled L)) cs)"

subsection \<open>The bounding rectangle as the specification words it\<close>

text \<open>
  The extremes start at \<open>+\<infinity>\<close> and \<open>-\<infinity>\<close>, here \<open>None\<close>: the first candidate
  replaces them, every later one is combined by \<open>min\<close> or \<open>max\<close>.
\<close>

definition spec_lower :: "real option \<Rightarrow> real \<Rightarrow> real option" where
  "spec_lower m v = (case m of None \<Rightarrow> Some v | Some a \<Rightarrow> Some (min a v))"

definition spec_upper :: "real option \<Rightarrow> real \<Rightarrow> real option" where
  "spec_upper m v = (case m of None \<Rightarrow> Some v | Some a \<Rightarrow> Some (max a v))"

type_synonym spec_extremes = "real option \<times> real option \<times> real option \<times> real option"

definition spec_extend :: "real \<Rightarrow> real \<Rightarrow> real \<Rightarrow> real \<Rightarrow> spec_extremes \<Rightarrow> spec_extremes" where
  "spec_extend lox hix loy hiy e =
     (case e of (minX, maxX, minY, maxY) \<Rightarrow>
        (spec_lower minX lox, spec_upper maxX hix, spec_lower minY loy, spec_upper maxY hiy))"

definition spec_fixture :: "b2Transform \<Rightarrow> spec_extremes \<Rightarrow> b2Fixture \<Rightarrow> spec_extremes" where
  "spec_fixture xform e f =
     (case shape f of
        b2CircleShape p radius \<Rightarrow>
          (let center = b2Mul xform p
           in spec_extend (fst center - radius) (fst center + radius)
                          (snd center - radius) (snd center + radius) e)
      | b2PolygonShape vs \<Rightarrow>
          foldl (\<lambda>e' v. let vertex = b2Mul xform v
                         in spec_extend (fst vertex) (fst vertex) (snd vertex) (snd vertex) e')
                e vs)"

text \<open>The rectangle of the specification; \<open>None\<close> when an extreme is still infinite.\<close>

definition spec_bounds :: "CCSize \<Rightarrow> b2Body \<Rightarrow> CCRect option" where
  "spec_bounds s body =
     (case foldl (spec_fixture (m_xf body)) (None, None, None, None) (m_fixtureList body) of
        (Some minX, Some maxX, Some minY, Some maxY) \<Rightarrow>
          Some \<lparr>origin = (WORLD_TO_SCREEN minX, snd s - WORLD_TO_SCREEN maxY),
                rect_size = (WORLD_TO_SCREEN maxX - WORLD_TO_SCREEN minX,
                             WORLD_TO_SCREEN maxY - WORLD_TO_SCREEN minY)\<rparr>
      | _ \<Rightarrow> None)"

subsection \<open>Concrete states\<close>

text \<open>
  A layer just initialised for a 640 x 480 window and a brush image of size \<open>bs\<close>, and
  the same layer in the middle of a gesture of touch 0 with the points \<open>pts\<close> drawn so
  far (the render target is node 0, the only child).
\<close>

definition idle_layer :: "CCSize \<Rightarrow> PhysicsLayer" where
  "idle_layer bs = init (640, 480) bs (\<lambda>n. True)"

definition capturing_layer :: "CCSize \<Rightarrow> CCPoint list \<Rightarrow> PhysicsLayer" where
  "capturing_layer bs pts =
     (idle_layer bs)
       \<lparr>current_touch_id := 0,
        render_target := Some \<lparr>rt_node = 0, rt_stamps = []\<rparr>,
        points_being_drawn := pts,
        children := Some [0],
        next_node := 1\<rparr>"

definition touch0 :: "CCPoint \<Rightarrow> CCTouch" where
  "touch0 p = \<lparr>touch_id = 0, touch_location = p, touch_previous = p\<rparr>"

text \<open>An idle layer with one child, node 7, that is hidden although debugging is off.\<close>

definition hidden_child_layer :: PhysicsLayer where
  "hidden_child_layer =
     (idle_layer (20, 20))\<lparr>children := Some [7], visible := (\<lambda>n. n \<noteq> 7), next_node := 8\<rparr>"

text \<open>
  How the running extremes of \<open>CalcBodyBounds\<close> read an extreme of the specification:
  a lower one is capped by the starting value \<open>FLT_MAX\<close>, an upper one by the starting
  value \<open>0\<close>.
\<close>

definition capped_lower :: "real option \<Rightarrow> real" where
  "capped_lower m = (case m of None \<Rightarrow> FLT_MAX | Some v \<Rightarrow> min FLT_MAX v)"

definition capped_upper :: "real option \<Rightarrow> real" where
  "capped_upper m = (case m of None \<Rightarrow> 0 | Some v \<Rightarrow> max 0 v)"

definition capped :: "spec_extremes \<Rightarrow> extremes" where
  "capped e = (case e of (minX, maxX, minY, maxY) \<Rightarrow>
     (capped_lower minX, capped_upper maxX, capped_lower minY, capped_upper maxY))"

subsection \<open>The states the layer reaches\<close>

text \<open>
  The states reached from an initialised layer by its touch handlers and \<open>ToggleDebug\<close>,
  each handler having returned without an error.
\<close>

inductive reachable :: "PhysicsLayer \<Rightarrow> bool" where
  reach_init: "reachable (init ws bs vis)"
| reach_began: "reachable L \<Longrightarrow> ccTouchBegan touch L = Inr (claimed, L') \<Longrightarrow> reachable L'"
| reach_moved: "reachable L \<Longrightarrow> ccTouchMoved touch L = Inr L' \<Longrightarrow> reachable L'"
| reach_ended: "reachable L \<Longrightarrow> ccTouchEnded touch L = Inr L' \<Longrightarrow> reachable L'"
| reach_toggle: "reachable L \<Longrightarrow> reachable (ToggleDebug L)"

text \<open>
  The children are distinct nodes below the next free address, and those other than
  the render target follow the debug flag.
\<close>

definition children_wf :: "PhysicsLayer \<Rightarrow> bool" where
  "children_wf L =
     (children_follow_debug L \<and>
      (case children L of
         None \<Rightarrow> True
       | Some cs \<Rightarrow> distinct cs \<and> list_all (\<lambda>c. c < next_node L) cs))"

section \<open>Properties\<close>

text \<open>
  The defining equation of the loop of \<open>CreatePhysicsBody\<close> is not a simplification
  rule: general proofs unfold the loop one iteration at a time, by \<open>loop_done\<close>,
  \<open>loop_skip\<close> and \<open>loop_emit\<close>.
\<close>

declare CreatePhysicsBody_loop.simps [simp del]

lemmas layer_defs = capturing_layer_def idle_layer_def init_def

subsection \<open>Distances and boxes\<close>

lemma ccpDistance_nonneg: "0 \<le> ccpDistance a b"
  by (simp add: ccpDistance_def)

lemma ccpDistance_horizontal: "ccpDistance (a, c) (b, c) = \<bar>a - b\<bar>"
  by (simp add: ccpDistance_def)

lemma float_to_int_nonneg: "0 \<le> v \<Longrightarrow> float_to_int v = \<lfloor>v\<rfloor>"
  by (simp add: float_to_int_def)

lemma float_to_int_le: "real_of_int (float_to_int r) \<le> max r 0"
  by (simp add: float_to_int_def)

lemma box_edge:
  "ccpDistance (b2Mul \<lparr>xf_p = c, xf_q = b2Rot t\<rparr> (- hx, - hy)) (b2Mul \<lparr>xf_p = c, xf_q = b2Rot t\<rparr> (hx, - hy))
     = 2 * \<bar>hx\<bar>"
proof -
  have sc: "sin t * sin t + cos t * cos t = 1"
    using sin_cos_squared_add [of t] by (simp add: power2_eq_square)
  have "(2 * hx * cos t) * (2 * hx * cos t) + (2 * hx * sin t) * (2 * hx * sin t)
        = (2 * hx) * (2 * hx)"
    using sc by algebra
  then have e: "sqrt ((2 * hx * cos t) * (2 * hx * cos t) + (2 * hx * sin t) * (2 * hx * sin t)) = \<bar>2 * hx\<bar>"
    by (simp only: real_sqrt_abs2)
  have x: "fst (b2Mul \<lparr>xf_p = c, xf_q = b2Rot t\<rparr> (- hx, - hy)) - fst (b2Mul \<lparr>xf_p = c, xf_q = b2Rot t\<rparr> (hx, - hy))
        = - (2 * hx * cos t)"
    by (simp add: b2Mul_def b2Rot_def Let_def algebra_simps)
  have y: "snd (b2Mul \<lparr>xf_p = c, xf_q = b2Rot t\<rparr> (- hx, - hy)) - snd (b2Mul \<lparr>xf_p = c, xf_q = b2Rot t\<rparr> (hx, - hy))
        = - (2 * hx * sin t)"
    by (simp add: b2Mul_def b2Rot_def Let_def algebra_simps)
  show ?thesis
    unfolding ccpDistance_def x y using e by (simp only: minus_mult_minus)
qed

lemma box_width_SetAsBox [simp]:
  "box_width \<lparr>shape = SetAsBox hx hy c t, density = dn, friction = fr, restitution = rs\<rparr> = 2 * \<bar>hx\<bar>"
  by (simp add: box_width_def SetAsBox_def Let_def box_edge)

lemma is_box_SetAsBox [simp]:
  "is_box \<lparr>shape = SetAsBox hx hy c t, density = dn, friction = fr, restitution = rs\<rparr>"
  "\<not> is_circle \<lparr>shape = SetAsBox hx hy c t, density = dn, friction = fr, restitution = rs\<rparr>"
  by (simp_all add: is_box_def is_circle_def SetAsBox_def Let_def)

lemma is_circle_circle [simp]:
  "is_circle \<lparr>shape = b2CircleShape p r, density = dn, friction = fr, restitution = rs\<rparr>"
  "\<not> is_box \<lparr>shape = b2CircleShape p r, density = dn, friction = fr, restitution = rs\<rparr>"
  by (simp_all add: is_box_def is_circle_def)

lemma cap_is_circle: "is_circle (cap_fixture L)" "\<not> is_box (cap_fixture L)"
  by (simp_all add: cap_fixture_def is_circle_def is_box_def)

lemma box_not_circle: "is_box f \<Longrightarrow> \<not> is_circle f"
  by (simp add: is_box_def is_circle_def split: b2Shape.splits)

lemma AddLineToBody_xf: "m_xf (AddLineToBody L body a b) = m_xf body"
  by (simp add: AddLineToBody_def AddShapeToBody_def CreateFixture_def Let_def)

lemma AddLineToBody_box:
  "\<exists>f. m_fixtureList (AddLineToBody L body a b) = f # m_fixtureList body \<and> is_box f
       \<and> box_width f = SCREEN_TO_WORLD (ccpDistance a b)"
proof -
  have "0 \<le> ccpDistance a b" by (rule ccpDistance_nonneg)
  then show ?thesis
    by (simp add: AddLineToBody_def AddShapeToBody_def CreateFixture_def Let_def SetAsBox_def
        is_box_def box_width_def box_edge SCREEN_TO_WORLD_def PTM_RATIO_def)
qed

subsection \<open>The loop over the points of a stroke\<close>

lemma loop_done:
  "length pts \<le> iter \<Longrightarrow> CreatePhysicsBody_loop L pts iter sp body evals = (body, evals)"
  by (subst CreatePhysicsBody_loop.simps) simp

lemma loop_skip:
  "iter < length pts \<Longrightarrow> ccpDistance sp (pts ! iter) < real_of_int (min_box_length L) \<Longrightarrow>
   Suc iter \<noteq> length pts \<Longrightarrow>
   CreatePhysicsBody_loop L pts iter sp body evals =
   CreatePhysicsBody_loop L pts (Suc iter) sp body (evals @ [int (length pts) - 1])"
  by (subst CreatePhysicsBody_loop.simps) (auto simp: Let_def)

lemma loop_emit:
  "iter < length pts \<Longrightarrow>
   \<not> (ccpDistance sp (pts ! iter) < real_of_int (min_box_length L) \<and> Suc iter \<noteq> length pts) \<Longrightarrow>
   CreatePhysicsBody_loop L pts iter sp body evals =
   CreatePhysicsBody_loop L pts (Suc iter) (pts ! iter) (AddLineToBody L body sp (pts ! iter))
     (if ccpDistance sp (pts ! iter) < real_of_int (min_box_length L)
      then evals @ [int (length pts) - 1] else evals)"
  by (subst CreatePhysicsBody_loop.simps) (auto simp: Let_def)

lemma loop_xf: "m_xf (fst (CreatePhysicsBody_loop L pts iter sp body evals)) = m_xf body"
proof (induction "length pts - iter" arbitrary: iter sp body evals)
  case 0
  then have "length pts \<le> iter" by simp
  then show ?case by (simp add: loop_done)
next
  case (Suc k)
  then have lt: "iter < length pts" and k: "k = length pts - Suc iter" by simp_all
  show ?case
  proof (cases "ccpDistance sp (pts ! iter) < real_of_int (min_box_length L) \<and> Suc iter \<noteq> length pts")
    case True
    then show ?thesis using Suc.hyps(1)[OF k] lt by (simp add: loop_skip)
  next
    case False
    then show ?thesis using Suc.hyps(1)[OF k] lt by (simp add: loop_emit AddLineToBody_xf)
  qed
qed

lemma loop_boxes:
  "\<exists>new. m_fixtureList (fst (CreatePhysicsBody_loop L pts iter sp body evals)) = new @ m_fixtureList body
      \<and> list_all is_box new
      \<and> list_all (\<lambda>f. SCREEN_TO_WORLD (real_of_int (min_box_length L)) \<le> box_width f) (tl new)
      \<and> (length pts \<le> iter \<longrightarrow> new = [])
      \<and> (iter < length pts \<longrightarrow> new \<noteq> [])"
proof (induction "length pts - iter" arbitrary: iter sp body evals)
  case 0
  then have "length pts \<le> iter" by simp
  then show ?case by (simp add: loop_done)
next
  case (Suc k)
  then have lt: "iter < length pts" and k: "k = length pts - Suc iter" by simp_all
  show ?case
  proof (cases "ccpDistance sp (pts ! iter) < real_of_int (min_box_length L) \<and> Suc iter \<noteq> length pts")
    case True
    then show ?thesis
      using Suc.hyps(1)[OF k, of sp body "evals @ [int (length pts) - 1]"] lt
      by (auto simp: loop_skip)
  next
    case False
    obtain f where f: "m_fixtureList (AddLineToBody L body sp (pts ! iter)) = f # m_fixtureList body"
      "is_box f" "box_width f = SCREEN_TO_WORLD (ccpDistance sp (pts ! iter))"
      using AddLineToBody_box by blast
    let ?ev = "if ccpDistance sp (pts ! iter) < real_of_int (min_box_length L)
      then evals @ [int (length pts) - 1] else evals"
    obtain new where new:
      "m_fixtureList (fst (CreatePhysicsBody_loop L pts (Suc iter) (pts ! iter) (AddLineToBody L body sp (pts ! iter)) ?ev))
         = new @ f # m_fixtureList body"
      "list_all is_box new"
      "list_all (\<lambda>f. SCREEN_TO_WORLD (real_of_int (min_box_length L)) \<le> box_width f) (tl new)"
      "length pts \<le> Suc iter \<longrightarrow> new = []"
      using Suc.hyps(1)[OF k, of "pts ! iter" "AddLineToBody L body sp (pts ! iter)" ?ev] f(1)
      by auto
    have wide: "new \<noteq> [] \<Longrightarrow> SCREEN_TO_WORLD (real_of_int (min_box_length L)) \<le> box_width f"
    proof -
      assume "new \<noteq> []"
      with new(4) have "Suc iter \<noteq> length pts" using lt by auto
      with False have "real_of_int (min_box_length L) \<le> ccpDistance sp (pts ! iter)" by simp
      then show ?thesis by (simp add: f(3) SCREEN_TO_WORLD_def PTM_RATIO_def)
    qed
    have tl_eq: "tl (new @ [f]) = (if new = [] then [] else tl new @ [f])"
      by (cases new) simp_all
    have "m_fixtureList (fst (CreatePhysicsBody_loop L pts iter sp body evals)) = (new @ [f]) @ m_fixtureList body"
      using new(1) lt False by (simp add: loop_emit)
    moreover have "list_all is_box (new @ [f])" using new(2) f(2) by simp
    moreover have "list_all (\<lambda>f. SCREEN_TO_WORLD (real_of_int (min_box_length L)) \<le> box_width f) (tl (new @ [f]))"
      using new(3) wide by (simp add: tl_eq)
    moreover have "length pts \<le> iter \<longrightarrow> new @ [f] = []" using lt by simp
    moreover have "iter < length pts \<longrightarrow> new @ [f] \<noteq> []" by simp
    ultimately show ?thesis by blast
  qed
qed

lemma loop_no_skip_count:
  assumes "\<forall>k. iter \<le> k \<and> k < length pts \<longrightarrow> \<not> ccpDistance (pts ! (k - 1)) (pts ! k) < real_of_int (min_box_length L)"
    and "sp = pts ! (iter - 1)"
  shows "length (m_fixtureList (fst (CreatePhysicsBody_loop L pts iter sp body evals)))
           = (length pts - iter) + length (m_fixtureList body)"
  using assms
proof (induction "length pts - iter" arbitrary: iter sp body evals)
  case 0
  then have "length pts \<le> iter" by simp
  then show ?case by (simp add: loop_done)
next
  case (Suc k)
  then have lt: "iter < length pts" and k: "k = length pts - Suc iter" by simp_all
  have ns: "\<not> ccpDistance sp (pts ! iter) < real_of_int (min_box_length L)"
    using Suc.prems lt by auto
  obtain f where f: "m_fixtureList (AddLineToBody L body sp (pts ! iter)) = f # m_fixtureList body"
    using AddLineToBody_box by blast
  have "length (m_fixtureList (fst (CreatePhysicsBody_loop L pts (Suc iter) (pts ! iter) (AddLineToBody L body sp (pts ! iter)) evals)))
           = (length pts - Suc iter) + length (m_fixtureList (AddLineToBody L body sp (pts ! iter)))"
    by (rule Suc.hyps(1)[OF k]) (use Suc.prems in auto)
  then show ?case using lt ns f by (simp add: loop_emit)
qed

lemma loop_evals:
  "\<exists>new. snd (CreatePhysicsBody_loop L pts iter sp body evals) = evals @ new
      \<and> list_all (\<lambda>e. e = int (length pts) - 1) new
      \<and> (new \<noteq> [] \<longrightarrow> iter < length pts)"
proof (induction "length pts - iter" arbitrary: iter sp body evals)
  case 0
  then have "length pts \<le> iter" by simp
  then show ?case by (simp add: loop_done)
next
  case (Suc k)
  then have lt: "iter < length pts" and k: "k = length pts - Suc iter" by simp_all
  show ?case
  proof (cases "ccpDistance sp (pts ! iter) < real_of_int (min_box_length L) \<and> Suc iter \<noteq> length pts")
    case True
    obtain new where "snd (CreatePhysicsBody_loop L pts (Suc iter) sp body (evals @ [int (length pts) - 1]))
        = (evals @ [int (length pts) - 1]) @ new" "list_all (\<lambda>e. e = int (length pts) - 1) new"
      using Suc.hyps(1)[OF k, of sp body "evals @ [int (length pts) - 1]"] by blast
    then have "snd (CreatePhysicsBody_loop L pts iter sp body evals) = evals @ ((int (length pts) - 1) # new)
       \<and> list_all (\<lambda>e. e = int (length pts) - 1) ((int (length pts) - 1) # new)"
      using True lt by (simp add: loop_skip)
    then show ?thesis using lt by blast
  next
    case False
    let ?ev = "if ccpDistance sp (pts ! iter) < real_of_int (min_box_length L)
      then evals @ [int (length pts) - 1] else evals"
    obtain new where new: "snd (CreatePhysicsBody_loop L pts (Suc iter) (pts ! iter) (AddLineToBody L body sp (pts ! iter)) ?ev)
        = ?ev @ new" "list_all (\<lambda>e. e = int (length pts) - 1) new"
      using Suc.hyps(1)[OF k, of "pts ! iter" "AddLineToBody L body sp (pts ! iter)" ?ev] by blast
    let ?new = "if ccpDistance sp (pts ! iter) < real_of_int (min_box_length L)
      then (int (length pts) - 1) # new else new"
    have "snd (CreatePhysicsBody_loop L pts iter sp body evals) = evals @ ?new
       \<and> list_all (\<lambda>e. e = int (length pts) - 1) ?new"
      using new False lt by (simp add: loop_emit)
    then show ?thesis using lt by blast
  qed
qed

lemma run_structure:
  assumes "pts \<noteq> []"
  shows "\<exists>body evals new cap.
      CreatePhysicsBody_run L pts = Inr (body, evals)
    \<and> m_xf body = \<lparr>xf_p = (SCREEN_TO_WORLD (fst (hd pts)), SCREEN_TO_WORLD (snd (hd pts))), xf_q = (0, 1)\<rparr>
    \<and> m_fixtureList body = new @ [cap, cap_fixture L]
    \<and> is_circle cap \<and> \<not> is_box cap
    \<and> (length pts = 1 \<longrightarrow> cap = cap_fixture L)
    \<and> list_all is_box new
    \<and> list_all (\<lambda>f. SCREEN_TO_WORLD (real_of_int (min_box_length L)) \<le> box_width f) (tl new)
    \<and> (length pts = 1 \<longrightarrow> new = [])
    \<and> (2 \<le> length pts \<longrightarrow> new \<noteq> [])"
proof -
  let ?sp = "hd pts"
  let ?b0 = "CreateBody (SCREEN_TO_WORLD (fst ?sp), SCREEN_TO_WORLD (snd ?sp))"
  let ?b1 = "AddSphereToBody L ?b0 ?sp"
  let ?b2 = "AddSphereToBody L ?b1 (last pts)"
  let ?cap = "\<lparr>shape = b2CircleShape
          (SCREEN_TO_WORLD (fst (last pts)) - SCREEN_TO_WORLD (fst ?sp),
           SCREEN_TO_WORLD (snd (last pts)) - SCREEN_TO_WORLD (snd ?sp))
          (SCREEN_TO_WORLD (brush_radius L)),
        density = box2d_density L, friction = box2d_friction L,
        restitution = box2d_restitution L\<rparr>"
  have b2: "m_fixtureList ?b2 = [?cap, cap_fixture L]"
    "m_xf ?b2 = \<lparr>xf_p = (SCREEN_TO_WORLD (fst ?sp), SCREEN_TO_WORLD (snd ?sp)), xf_q = (0, 1)\<rparr>"
    by (simp_all add: AddSphereToBody_def AddShapeToBody_def CreateFixture_def CreateBody_def
        GetPosition_def cap_fixture_def b2Rot_def)
  have one: "length pts = 1 \<Longrightarrow> ?cap = cap_fixture L"
  proof -
    assume "length pts = 1"
    then obtain p where "pts = [p]" by (cases pts) simp_all
    then show ?thesis by (simp add: cap_fixture_def)
  qed
  obtain new where new:
    "m_fixtureList (fst (CreatePhysicsBody_loop L pts 1 ?sp ?b2 [])) = new @ m_fixtureList ?b2"
    "list_all is_box new"
    "list_all (\<lambda>f. SCREEN_TO_WORLD (real_of_int (min_box_length L)) \<le> box_width f) (tl new)"
    "length pts \<le> 1 \<longrightarrow> new = []" "1 < length pts \<longrightarrow> new \<noteq> []"
    using loop_boxes[of L pts 1 ?sp ?b2 "[]"] by blast
  have run: "CreatePhysicsBody_run L pts = Inr (CreatePhysicsBody_loop L pts 1 ?sp ?b2 [])"
    using assms by (simp add: CreatePhysicsBody_run_def Let_def)
  obtain body evals where be: "CreatePhysicsBody_loop L pts 1 ?sp ?b2 [] = (body, evals)"
    by (cases "CreatePhysicsBody_loop L pts 1 ?sp ?b2 []")
  have xf: "m_xf body = m_xf ?b2" using loop_xf[of L pts 1 ?sp ?b2 "[]"] be by simp
  have "CreatePhysicsBody_run L pts = Inr (body, evals)" using run be by simp
  moreover have "m_xf body = \<lparr>xf_p = (SCREEN_TO_WORLD (fst (hd pts)), SCREEN_TO_WORLD (snd (hd pts))), xf_q = (0, 1)\<rparr>"
    using xf b2(2) by simp
  moreover have "m_fixtureList body = new @ [?cap, cap_fixture L]" using new(1) be b2(1) by simp
  moreover have "is_circle ?cap" "\<not> is_box ?cap" by (simp_all add: is_circle_def is_box_def)
  moreover have "length pts = 1 \<longrightarrow> ?cap = cap_fixture L" using one by blast
  moreover have "length pts = 1 \<longrightarrow> new = []" using new(4) by simp
  moreover have "2 \<le> length pts \<longrightarrow> new \<noteq> []" using new(5) by simp
  ultimately show ?thesis using new(2,3) by blast
qed

lemma CreatePhysicsBody_run_eq:
  "CreatePhysicsBody_run L (points_being_drawn L) = Inr (body, evals) \<Longrightarrow>
   CreatePhysicsBody L = Inr (body, L\<lparr>box2d_world := box2d_world L @ [body], points_being_drawn := []\<rparr>)"
  by (simp add: CreatePhysicsBody_def)

lemma straight_stroke_spacing:
  assumes "0 < k" "k < N"
  shows "ccpDistance (straight_stroke p d N ! (k - 1)) (straight_stroke p d N ! k) = ccpDistance (0, 0) d"
proof -
  obtain j where j: "k = Suc j" using assms(1) by (cases k) simp_all
  have "(fst p + real j * fst d - (fst p + (1 + real j) * fst d)) = - fst d"
       "(snd p + real j * snd d - (snd p + (1 + real j) * snd d)) = - snd d"
    by (simp_all add: algebra_simps)
  then show ?thesis using assms j
    by (simp add: straight_stroke_def ccpDistance_def)
qed

subsection \<open>The running extremes of CalcBodyBounds\<close>

lemma extend_extremes_mono:
  "extend_extremes lox hix loy hiy (a, b, c, d) = (a', b', c', d') \<Longrightarrow>
   a' \<le> a \<and> b \<le> b' \<and> c' \<le> c \<and> d \<le> d' \<and> a' \<le> lox \<and> hix \<le> b' \<and> c' \<le> loy \<and> hiy \<le> d'"
  by (auto simp: extend_extremes_def split: if_splits)

lemma vertices_mono:
  "foldl (\<lambda>e' v. let vertex = b2Mul xform v
                         in extend_extremes (fst vertex) (fst vertex) (snd vertex) (snd vertex) e')
                (a, b, c, d) vs = (a', b', c', d') \<Longrightarrow>
   a' \<le> a \<and> b \<le> b' \<and> c' \<le> c \<and> d \<le> d'"
proof (induction vs arbitrary: a b c d)
  case Nil
  then show ?case by simp
next
  case (Cons v vs)
  obtain a1 b1 c1 d1 where s: "extend_extremes (fst (b2Mul xform v)) (fst (b2Mul xform v))
      (snd (b2Mul xform v)) (snd (b2Mul xform v)) (a, b, c, d) = (a1, b1, c1, d1)"
    by (metis prod_cases4)
  from Cons.prems have "foldl (\<lambda>e' v. let vertex = b2Mul xform v
                         in extend_extremes (fst vertex) (fst vertex) (snd vertex) (snd vertex) e')
                (a1, b1, c1, d1) vs = (a', b', c', d')"
    by (simp add: s Let_def)
  from Cons.IH[OF this] extend_extremes_mono[OF s] show ?case by linarith
qed

lemma fixture_mono:
  assumes "CalcBodyBounds_fixture xform (a, b, c, d) f = (a', b', c', d')"
  shows "a' \<le> a \<and> b \<le> b' \<and> c' \<le> c \<and> d \<le> d'"
proof (cases "shape f")
  case (b2CircleShape p r)
  with assms show ?thesis
    by (auto simp: CalcBodyBounds_fixture_def Let_def dest: extend_extremes_mono)
next
  case (b2PolygonShape vs)
  with assms show ?thesis
    by (simp add: CalcBodyBounds_fixture_def vertices_mono)
qed

lemma fixture_circle:
  assumes "CalcBodyBounds_fixture xform (a, b, c, d) f = (a', b', c', d')"
    and "shape f = b2CircleShape p r"
  shows "a' \<le> fst (b2Mul xform p) - r \<and> fst (b2Mul xform p) + r \<le> b'
       \<and> c' \<le> snd (b2Mul xform p) - r \<and> snd (b2Mul xform p) + r \<le> d'"
  using assms by (auto simp: CalcBodyBounds_fixture_def Let_def dest: extend_extremes_mono)

lemma fixtures_mono:
  "foldl (CalcBodyBounds_fixture xform) (a, b, c, d) fs = (a', b', c', d') \<Longrightarrow>
   a' \<le> a \<and> b \<le> b' \<and> c' \<le> c \<and> d \<le> d'"
proof (induction fs arbitrary: a b c d)
  case Nil
  then show ?case by simp
next
  case (Cons f fs)
  obtain a1 b1 c1 d1 where s: "CalcBodyBounds_fixture xform (a, b, c, d) f = (a1, b1, c1, d1)"
    by (metis prod_cases4)
  from Cons.prems have "foldl (CalcBodyBounds_fixture xform) (a1, b1, c1, d1) fs = (a', b', c', d')"
    by (simp add: s)
  from Cons.IH[OF this] fixture_mono[OF s] show ?case by linarith
qed

lemma fixtures_circle:
  assumes "foldl (CalcBodyBounds_fixture xform) (a, b, c, d) fs = (a', b', c', d')"
    and "f \<in> set fs" and "shape f = b2CircleShape p r"
  shows "a' \<le> fst (b2Mul xform p) - r \<and> fst (b2Mul xform p) + r \<le> b'
       \<and> c' \<le> snd (b2Mul xform p) - r \<and> snd (b2Mul xform p) + r \<le> d'"
  using assms
proof (induction fs arbitrary: a b c d)
  case Nil
  then show ?case by simp
next
  case (Cons g fs)
  obtain a1 b1 c1 d1 where s: "CalcBodyBounds_fixture xform (a, b, c, d) g = (a1, b1, c1, d1)"
    by (metis prod_cases4)
  from Cons.prems have r: "foldl (CalcBodyBounds_fixture xform) (a1, b1, c1, d1) fs = (a', b', c', d')"
    by (simp add: s)
  show ?case
  proof (cases "f = g")
    case True
    from fixture_circle[OF s] True Cons.prems(3) fixtures_mono[OF r] show ?thesis by fastforce
  next
    case False
    with Cons.prems have "f \<in> set fs" by simp
    from Cons.IH[OF r this Cons.prems(3)] show ?thesis .
  qed
qed

lemma unit_interval: "0 \<le> n \<Longrightarrow> n \<le> d \<Longrightarrow> 0 < d \<Longrightarrow> 0 \<le> n / d \<and> n / d \<le> (1::real)"
  by simp

text \<open>
  The running extremes are those of the specification, each capped by its starting
  value; where no cap binds, the rectangle is the tight one.
\<close>

lemma capped_extend:
  "capped (spec_extend lox hix loy hiy e) = extend_extremes lox hix loy hiy (capped e)"
  by (cases e)
     (auto simp: capped_def spec_extend_def extend_extremes_def capped_lower_def capped_upper_def
        spec_lower_def spec_upper_def split: option.splits)

lemma capped_vertices:
  "capped (foldl (\<lambda>e' v. spec_extend (fst (b2Mul xform v)) (fst (b2Mul xform v))
                            (snd (b2Mul xform v)) (snd (b2Mul xform v)) e') e vs)
   = foldl (\<lambda>e' v. extend_extremes (fst (b2Mul xform v)) (fst (b2Mul xform v))
                            (snd (b2Mul xform v)) (snd (b2Mul xform v)) e') (capped e) vs"
  by (induction vs arbitrary: e) (simp_all add: capped_extend)

lemma capped_fixture:
  "capped (spec_fixture xform e f) = CalcBodyBounds_fixture xform (capped e) f"
  by (cases "shape f")
     (simp_all add: spec_fixture_def CalcBodyBounds_fixture_def Let_def capped_extend capped_vertices)

lemma capped_fixtures:
  "capped (foldl (spec_fixture xform) e fs) = foldl (CalcBodyBounds_fixture xform) (capped e) fs"
  by (induction fs arbitrary: e) (simp_all add: capped_fixture)

lemma CalcBodyBounds_extremes_capped:
  "CalcBodyBounds_extremes body
     = capped (foldl (spec_fixture (m_xf body)) (None, None, None, None) (m_fixtureList body))"
  by (simp add: CalcBodyBounds_extremes_def capped_fixtures)
     (simp add: capped_def capped_lower_def capped_upper_def)

lemma CalcBodyBounds_tight_in_range:
  assumes "foldl (spec_fixture (m_xf body)) (None, None, None, None) (m_fixtureList body)
             = (Some a, Some b, Some c, Some d)"
    and "a \<le> FLT_MAX" "0 \<le> b" "c \<le> FLT_MAX" "0 \<le> d"
  shows "spec_bounds s body = Some (CalcBodyBounds s body)"
  using assms
  by (simp add: spec_bounds_def CalcBodyBounds_def CalcBodyBounds_extremes_capped capped_def
      capped_lower_def capped_upper_def Let_def)

subsection \<open>ToggleDebug and the touch handlers\<close>

lemma ToggleDebug_children:
  "foldl ToggleDebug_child L cs =
     L\<lparr>visible := (\<lambda>n. if n \<in> set cs \<and> Some n \<noteq> map_option rt_node (render_target L)
                         then \<not> debug_enabled L else visible L n)\<rparr>"
proof (induction cs arbitrary: L)
  case Nil
  then show ?case by simp
next
  case (Cons c cs)
  have "foldl ToggleDebug_child L (c # cs) = foldl ToggleDebug_child (ToggleDebug_child L c) cs"
    by simp
  also have "\<dots> = (ToggleDebug_child L c)\<lparr>visible :=
        (\<lambda>n. if n \<in> set cs \<and> Some n \<noteq> map_option rt_node (render_target (ToggleDebug_child L c))
             then \<not> debug_enabled (ToggleDebug_child L c) else visible (ToggleDebug_child L c) n)\<rparr>"
    by (rule Cons.IH)
  also have "\<dots> = L\<lparr>visible := (\<lambda>n. if n \<in> set (c # cs) \<and> Some n \<noteq> map_option rt_node (render_target L)
                         then \<not> debug_enabled L else visible L n)\<rparr>"
    by (auto simp: ToggleDebug_child_def setVisible_def fun_eq_iff)
  finally show ?case .
qed

lemma ToggleDebug_eq:
  "ToggleDebug L =
     L\<lparr>debug_enabled := \<not> debug_enabled L,
       visible := (\<lambda>n. if n \<in> (case children L of None \<Rightarrow> {} | Some cs \<Rightarrow> set cs)
                            \<and> Some n \<noteq> map_option rt_node (render_target L)
                         then debug_enabled L else visible L n)\<rparr>"
  by (cases "children L") (simp_all add: ToggleDebug_def Let_def ToggleDebug_children fun_eq_iff)

lemma ccTouchEnded_succeeds:
  assumes "touch_id t = current_touch_id L" and "points_being_drawn L \<noteq> []"
    and "render_target L = Some rt"
  shows "\<exists>L'. ccTouchEnded t L = Inr L'"
proof -
  obtain body evals where "CreatePhysicsBody_run L (points_being_drawn L) = Inr (body, evals)"
    using run_structure[OF assms(2), of L] by blast
  then have "CreatePhysicsBody L = Inr (body, L\<lparr>box2d_world := box2d_world L @ [body], points_being_drawn := []\<rparr>)"
    by (rule CreatePhysicsBody_run_eq)
  then show ?thesis using assms(1,3)
    by (simp add: ccTouchEnded_def CreatePhysicsSprite_def Let_def)
qed

text \<open>
  Every state the layer reaches keeps its children distinct, below the next free
  address and, the render target apart, visible exactly when debugging is off.
\<close>

lemma children_wf_init: "children_wf (init ws bs vis)"
  by (simp add: children_wf_def children_follow_debug_def init_def)

lemma children_wf_began:
  assumes "children_wf L" and "ccTouchBegan touch L = Inr (claimed, L')"
  shows "children_wf L'"
proof (cases "current_touch_id L \<noteq> - 1")
  case True
  then show ?thesis using assms by (simp add: ccTouchBegan_def)
next
  case idle: False
  show ?thesis
  proof (cases "render_target L")
    case None
    have L': "L' = addChild (next_node L)
        (L\<lparr>current_touch_id := touch_id touch,
           render_target := Some \<lparr>rt_node = next_node L, rt_stamps = []\<rparr>,
           visible := (visible L)(next_node L := True),
           next_node := Suc (next_node L)\<rparr>)
        \<lparr>points_being_drawn := [],
         render_target := Some \<lparr>rt_node = next_node L, rt_stamps = [touch_location touch]\<rparr>,
         points_being_drawn := [touch_location touch]\<rparr>"
      using assms(2) idle None
      by (auto simp: ccTouchBegan_def CreateRenderTarget_def DrawPoint_def addChild_def Let_def)
    show ?thesis
    proof (cases "children L")
      case nc: None
      then show ?thesis by (simp add: L' addChild_def children_wf_def children_follow_debug_def)
    next
      case (Some cs)
      have d: "distinct cs" and b: "\<And>c. c \<in> set cs \<Longrightarrow> c < next_node L"
        and f: "\<And>c. c \<in> set cs \<Longrightarrow> visible L c = (\<not> debug_enabled L)"
        using assms(1) Some None by (auto simp: children_wf_def children_follow_debug_def list_all_iff)
      have "next_node L \<notin> set cs" using b by blast
      then show ?thesis using Some d b f
        by (auto simp: L' addChild_def children_wf_def children_follow_debug_def list_all_iff less_Suc_eq)
    qed
  next
    case (Some rt)
    then show ?thesis using assms idle
      by (cases "children L")
         (auto simp: ccTouchBegan_def DrawPoint_def Let_def
            children_wf_def children_follow_debug_def list_all_iff)
  qed
qed

lemma children_wf_moved:
  assumes "children_wf L" and "ccTouchMoved touch L = Inr L'"
  shows "children_wf L'"
  using assms
  by (cases "children L")
     (auto simp: ccTouchMoved_def DrawLine_def Let_def children_wf_def children_follow_debug_def
        list_all_iff split: if_splits option.splits)

lemma children_wf_toggle:
  assumes "children_wf L"
  shows "children_wf (ToggleDebug L)"
  using assms
  by (cases "children L")
     (auto simp: ToggleDebug_eq children_wf_def children_follow_debug_def list_all_iff)

lemma children_wf_ended:
  assumes "children_wf L" and "ccTouchEnded touch L = Inr L'"
  shows "children_wf L'"
proof -
  from assms(2) obtain body L1 sprite L2 rt where s:
    "CreatePhysicsBody L = Inr (body, L1)" "CreatePhysicsSprite body L1 = Inr (sprite, L2)"
    "render_target L1 = Some rt"
    by (auto simp: ccTouchEnded_def CreatePhysicsSprite_def Let_def
        split: if_splits sum.splits prod.splits option.splits)
  have L1: "L1 = L\<lparr>box2d_world := box2d_world L @ [body], points_being_drawn := []\<rparr>"
    using s(1) by (auto simp: CreatePhysicsBody_def split: sum.splits prod.splits)
  have L2: "L2 = L1\<lparr>sprites := sprites L1 @ [sprite], visible := (visible L1)(next_node L1 := True),
                     next_node := Suc (next_node L1)\<rparr>" and n: "sp_node sprite = next_node L1"
    using s(2,3) by (auto simp: CreatePhysicsSprite_def Let_def)
  have L': "L' = (let L3 = addChild (sp_node sprite) L2;
                      L4 = (if debug_enabled L3 then setVisible (sp_node sprite) False L3 else L3);
                      L5 = (case render_target L4 of
                              None \<Rightarrow> L4
                            | Some rt \<Rightarrow> removeChild (rt_node rt) L4)
                  in L5\<lparr>render_target := None, current_touch_id := - 1\<rparr>)"
    using assms(2) s(1,2) by (auto simp: ccTouchEnded_def Let_def split: if_splits)
  show ?thesis
  proof (cases "children L")
    case None
    then show ?thesis using assms(1) s(3)
      by (auto simp: L' L2 L1 n Let_def addChild_def setVisible_def removeChild_def
          children_wf_def children_follow_debug_def list_all_iff)
  next
    case (Some cs)
    have d: "distinct cs" and b: "\<forall>c\<in>set cs. c < next_node L"
      and f: "\<forall>c\<in>set cs. c = rt_node rt \<or> visible L c = (\<not> debug_enabled L)"
      using assms(1) Some s(3) by (auto simp: children_wf_def children_follow_debug_def list_all_iff L1)
    have sub: "set (remove1 (rt_node rt) (cs @ [next_node L])) \<subseteq> (set cs - {rt_node rt}) \<union> {next_node L}"
      using d b by (auto simp: remove1_append split: if_splits)
    have d': "distinct (remove1 (rt_node rt) (cs @ [next_node L]))"
      using d b by (intro distinct_remove1) auto
    show ?thesis using s(3) Some sub d' b f
      by (auto simp: L' L2 L1 n Let_def addChild_def setVisible_def removeChild_def
          children_wf_def children_follow_debug_def list_all_iff less_Suc_eq)
  qed
qed

lemma reachable_children_wf: "reachable L \<Longrightarrow> children_wf L"
proof (induction rule: reachable.induct)
  case (reach_init ws bs vis)
  show ?case by (rule children_wf_init)
next
  case (reach_began L touch claimed L')
  then show ?case by (blast intro: children_wf_began)
next
  case (reach_moved L touch L')
  then show ?case by (blast intro: children_wf_moved)
next
  case (reach_ended L touch L')
  then show ?case by (blast intro: children_wf_ended)
next
  case (reach_toggle L)
  then show ?case by (blast intro: children_wf_toggle)
qed

lemma reachable_follow_debug: "reachable L \<Longrightarrow> children_follow_debug L"
  using reachable_children_wf by (simp add: children_wf_def)

section \<open>The claims\<close>

subsection \<open>C1: the rectangle of CalcBodyBounds\<close>

text \<open>
  C1 says that \<open>CalcBodyBounds\<close> returns the tight bounding rectangle of every body
  with at least one fixture, the extremes starting at plus and minus infinity. The code
  starts both maxima at 0 (lines 232 and 234), so the claim fails for a body that lies
  at negative coordinates: for the body of the one-point stroke at \<open>(-64, -64)\<close> drawn
  with a brush of radius 10, whose two circles span \<open>-74 .. -54\<close> pixels on both axes,
  \<open>CalcBodyBounds\<close> returns a rectangle 74 wide and high with its top edge at 480, where
  the rectangle of the specification is 20 wide and high with its top edge at 534.
\<close>

theorem CalcBodyBounds_negative_body:
  "\<exists>body evals. CreatePhysicsBody_run (idle_layer (20, 20)) [(- 64, - 64)] = Inr (body, evals)
     \<and> length (m_fixtureList body) = 2
     \<and> CalcBodyBounds (640, 480) body = \<lparr>origin = (- 74, 480), rect_size = (74, 74)\<rparr>
     \<and> spec_bounds (640, 480) body = Some \<lparr>origin = (- 74, 534), rect_size = (20, 20)\<rparr>"
  by (simp add: CreatePhysicsBody_run_def Let_def idle_layer_def
      init_def CreatePhysicsBody_loop.simps 
      AddSphereToBody_def AddShapeToBody_def CreateFixture_def CreateBody_def
      GetPosition_def SCREEN_TO_WORLD_def WORLD_TO_SCREEN_def PTM_RATIO_def
      CalcBodyBounds_def CalcBodyBounds_extremes_def CalcBodyBounds_fixture_def extend_extremes_def
      spec_bounds_def spec_fixture_def spec_extend_def spec_lower_def spec_upper_def b2Mul_def b2Rot_def FLT_MAX_def
      DEFAULT_DENSITY_def DEFAULT_FRICTION_def DEFAULT_RESTITUTION_def)

subsection \<open>C2: the anchor point of the sprite\<close>

text \<open>
  C2: for the body that \<open>CreatePhysicsBody\<close> builds from a non-empty stroke, with a
  brush of positive radius, \<open>CreatePhysicsSprite\<close> returns a sprite of that body whose
  rectangle is the rectangle of \<open>CalcBodyBounds\<close> for the body, moved by the brush radius
  towards smaller x and y and made wider and higher by the brush radius, and whose anchor
  point is
  \<open>((bodyX - rectX) / rectWidth, (bodyY + rectY + rectHeight - viewportHeight) / rectHeight)\<close>
  for that rectangle; both divisors are positive, and both coordinates of the anchor lie
  between 0 and 1. This holds wherever the points of the stroke lie, so also when they
  all lie within the viewport.
\<close>

theorem anchor_in_unit_square:
  assumes "points_being_drawn L = pts" and "pts \<noteq> []" and "0 < brush_radius L"
    and "render_target L = Some rt"
  shows "\<exists>body L1 sprite L2.
      CreatePhysicsBody L = Inr (body, L1) \<and> CreatePhysicsSprite body L1 = Inr (sprite, L2)
    \<and> sp_body sprite = body
    \<and> sp_rect sprite =
        \<lparr>origin = (fst (origin (CalcBodyBounds (win_size L) body)) - brush_radius L,
                   snd (origin (CalcBodyBounds (win_size L) body)) - brush_radius L),
         rect_size = (fst (rect_size (CalcBodyBounds (win_size L) body)) + brush_radius L,
                      snd (rect_size (CalcBodyBounds (win_size L) body)) + brush_radius L)\<rparr>
    \<and> sp_anchor sprite =
        ((WORLD_TO_SCREEN (fst (GetPosition body)) - fst (origin (sp_rect sprite)))
           / fst (rect_size (sp_rect sprite)),
         (WORLD_TO_SCREEN (snd (GetPosition body)) + snd (origin (sp_rect sprite))
            + snd (rect_size (sp_rect sprite)) - snd (win_size L))
           / snd (rect_size (sp_rect sprite)))
    \<and> 0 < fst (rect_size (sp_rect sprite)) \<and> 0 < snd (rect_size (sp_rect sprite))
    \<and> 0 \<le> fst (sp_anchor sprite) \<and> fst (sp_anchor sprite) \<le> 1
    \<and> 0 \<le> snd (sp_anchor sprite) \<and> snd (sp_anchor sprite) \<le> 1"
proof -
  obtain body evals new cap where s:
    "CreatePhysicsBody_run L pts = Inr (body, evals)"
    "m_xf body = \<lparr>xf_p = (SCREEN_TO_WORLD (fst (hd pts)), SCREEN_TO_WORLD (snd (hd pts))), xf_q = (0, 1)\<rparr>"
    "m_fixtureList body = new @ [cap, cap_fixture L]"
    using run_structure[OF assms(2), of L] by blast
  let ?L1 = "L\<lparr>box2d_world := box2d_world L @ [body], points_being_drawn := []\<rparr>"
  let ?x0 = "fst (hd pts)" and ?y0 = "snd (hd pts)" and ?r = "brush_radius L"
  have cb: "CreatePhysicsBody L = Inr (body, ?L1)"
    using s(1) assms(1) by (simp add: CreatePhysicsBody_run_eq)
  obtain a b c d where e: "CalcBodyBounds_extremes body = (a, b, c, d)"
    by (metis prod_cases4)
  have mem: "cap_fixture L \<in> set (m_fixtureList body)" by (simp add: s(3))
  have sh: "shape (cap_fixture L) = b2CircleShape (0, 0) (SCREEN_TO_WORLD ?r)"
    by (simp add: cap_fixture_def)
  have ctr: "b2Mul (m_xf body) (0, 0) = (SCREEN_TO_WORLD ?x0, SCREEN_TO_WORLD ?y0)"
    by (simp add: s(2) b2Mul_def)
  have bnd: "a \<le> SCREEN_TO_WORLD ?x0 - SCREEN_TO_WORLD ?r" "SCREEN_TO_WORLD ?x0 + SCREEN_TO_WORLD ?r \<le> b"
       "c \<le> SCREEN_TO_WORLD ?y0 - SCREEN_TO_WORLD ?r" "SCREEN_TO_WORLD ?y0 + SCREEN_TO_WORLD ?r \<le> d"
    using fixtures_circle[OF e[unfolded CalcBodyBounds_extremes_def] mem sh] ctr by simp_all
  have A: "32 * a \<le> ?x0 - ?r" "?x0 + ?r \<le> 32 * b" "32 * c \<le> ?y0 - ?r" "?y0 + ?r \<le> 32 * d"
    using bnd by (simp_all add: SCREEN_TO_WORLD_def PTM_RATIO_def field_simps)
  let ?rect = "\<lparr>origin = (a * 32 - ?r, snd (win_size L) - d * 32 - ?r),
                rect_size = (b * 32 - a * 32 + ?r, d * 32 - c * 32 + ?r)\<rparr>"
  let ?ax = "(?x0 - (a * 32 - ?r)) / (b * 32 - a * 32 + ?r)"
  let ?ay = "(?y0 + (snd (win_size L) - d * 32 - ?r) + (d * 32 - c * 32 + ?r) - snd (win_size L))
              / (d * 32 - c * 32 + ?r)"
  let ?sprite = "\<lparr>sp_node = next_node L, sp_texture = rt_stamps rt, sp_rect = ?rect, sp_body = body,
                  sp_anchor = (?ax, ?ay)\<rparr>"
  have gp: "GetPosition body = (SCREEN_TO_WORLD ?x0, SCREEN_TO_WORLD ?y0)"
    by (simp add: GetPosition_def s(2))
  have ws: "WORLD_TO_SCREEN (SCREEN_TO_WORLD ?x0) = ?x0" "WORLD_TO_SCREEN (SCREEN_TO_WORLD ?y0) = ?y0"
    by (simp_all add: SCREEN_TO_WORLD_def WORLD_TO_SCREEN_def PTM_RATIO_def)
  have cs: "CreatePhysicsSprite body ?L1 =
      Inr (?sprite, ?L1\<lparr>sprites := sprites ?L1 @ [?sprite],
                     visible := (visible ?L1)(next_node L := True),
                     next_node := Suc (next_node L)\<rparr>)"
    using assms(4) e
    by (simp add: CreatePhysicsSprite_def CalcBodyBounds_def Let_def gp SCREEN_TO_WORLD_def
        WORLD_TO_SCREEN_def PTM_RATIO_def)
  have X: "0 \<le> ?ax \<and> ?ax \<le> 1"
    by (rule unit_interval) (use A assms(3) in linarith)+
  have Y: "0 \<le> ?ay \<and> ?ay \<le> 1"
    by (rule unit_interval) (use A assms(3) in linarith)+
  have W: "0 < b * 32 - a * 32 + ?r" "0 < d * 32 - c * 32 + ?r" using A assms(3) by linarith+
  have F: "sp_anchor ?sprite =
        ((WORLD_TO_SCREEN (fst (GetPosition body)) - fst (origin (sp_rect ?sprite)))
           / fst (rect_size (sp_rect ?sprite)),
         (WORLD_TO_SCREEN (snd (GetPosition body)) + snd (origin (sp_rect ?sprite))
            + snd (rect_size (sp_rect ?sprite)) - snd (win_size L))
           / snd (rect_size (sp_rect ?sprite)))"
    by (simp add: gp ws)
  have B: "sp_body ?sprite = body" by simp
  have R: "sp_rect ?sprite =
        \<lparr>origin = (fst (origin (CalcBodyBounds (win_size L) body)) - brush_radius L,
                   snd (origin (CalcBodyBounds (win_size L) body)) - brush_radius L),
         rect_size = (fst (rect_size (CalcBodyBounds (win_size L) body)) + brush_radius L,
                      snd (rect_size (CalcBodyBounds (win_size L) body)) + brush_radius L)\<rparr>"
    using e by (simp add: CalcBodyBounds_def Let_def WORLD_TO_SCREEN_def PTM_RATIO_def)
  show ?thesis
    apply (rule exI[of _ body], rule exI[of _ ?L1], rule exI[of _ ?sprite])
    apply (rule exI)
    apply (intro conjI)
    apply (rule cb)
    apply (rule cs)
    apply (rule B)
    apply (rule R)
    apply (rule F)
    using W X Y apply simp_all
    done
qed

text \<open>C2 at the stroke from \<open>(100, 100)\<close> to \<open>(200, 100)\<close> with a brush of radius 10.\<close>

theorem anchor_in_unit_square_witness:
  "points_being_drawn (capturing_layer (20, 20) [(100, 100), (200, 100)]) = [(100, 100), (200, 100)]
   \<and> [(100, 100), (200, 100)] \<noteq> ([] :: CCPoint list)
   \<and> 0 < brush_radius (capturing_layer (20, 20) [(100, 100), (200, 100)])
   \<and> render_target (capturing_layer (20, 20) [(100, 100), (200, 100)])
        = Some \<lparr>rt_node = 0, rt_stamps = []\<rparr>
   \<and> (\<exists>body L1 sprite L2.
        CreatePhysicsBody (capturing_layer (20, 20) [(100, 100), (200, 100)]) = Inr (body, L1)
      \<and> CreatePhysicsSprite body L1 = Inr (sprite, L2)
      \<and> sp_rect sprite =
          \<lparr>origin =
             (fst (origin (CalcBodyBounds
                 (win_size (capturing_layer (20, 20) [(100, 100), (200, 100)])) body))
                - brush_radius (capturing_layer (20, 20) [(100, 100), (200, 100)]),
              snd (origin (CalcBodyBounds
                 (win_size (capturing_layer (20, 20) [(100, 100), (200, 100)])) body))
                - brush_radius (capturing_layer (20, 20) [(100, 100), (200, 100)])),
           rect_size =
             (fst (rect_size (CalcBodyBounds
                 (win_size (capturing_layer (20, 20) [(100, 100), (200, 100)])) body))
                + brush_radius (capturing_layer (20, 20) [(100, 100), (200, 100)]),
              snd (rect_size (CalcBodyBounds
                 (win_size (capturing_layer (20, 20) [(100, 100), (200, 100)])) body))
                + brush_radius (capturing_layer (20, 20) [(100, 100), (200, 100)]))\<rparr>
      \<and> 0 \<le> fst (sp_anchor sprite) \<and> fst (sp_anchor sprite) \<le> 1
      \<and> 0 \<le> snd (sp_anchor sprite) \<and> snd (sp_anchor sprite) \<le> 1)"
proof -
  let ?L = "capturing_layer (20, 20) [(100, 100), (200, 100)]"
  have h1: "points_being_drawn ?L = [(100, 100), (200, 100)]" by (simp add: layer_defs)
  have h2: "[(100, 100), (200, 100)] \<noteq> ([] :: CCPoint list)" by simp
  have h3: "0 < brush_radius ?L" by (simp add: layer_defs)
  have h4: "render_target ?L = Some \<lparr>rt_node = 0, rt_stamps = []\<rparr>" by (simp add: layer_defs)
  from anchor_in_unit_square[OF h1 h2 h3 h4] h1 h2 h3 h4 show ?thesis by blast
qed

subsection \<open>C3: the stamps of DrawLine\<close>

text \<open>
  C3 as amended: for points \<open>start\<close> and \<open>finish\<close> at distance \<open>d\<close>, \<open>DrawLine\<close> stamps
  the brush exactly \<open>round d\<close> times (\<open>d + 1/2\<close> truncated; not \<open>round d + 1\<close> times), at the
  positions \<open>start + (i / d) * (finish - start)\<close> for \<open>i = 0, \<dots>, round d - 1\<close>, and appends
  \<open>finish\<close> to the points being drawn.
\<close>

theorem DrawLine_stamps:
  assumes "render_target L = Some rt"
  shows "\<exists>L'. DrawLine start finish L = Inr L'
     \<and> stamps L' = stamps L @
         map (\<lambda>i. (fst start + (fst finish - fst start) * (real i / ccpDistance start finish),
                    snd start + (snd finish - snd start) * (real i / ccpDistance start finish)))
             [0 ..< nat (round (ccpDistance start finish))]
     \<and> length (stamps L') = length (stamps L) + nat (round (ccpDistance start finish))
     \<and> points_being_drawn L' = points_being_drawn L @ [finish]"
proof -
  have "0 \<le> ccpDistance start finish + 1 / 2" using ccpDistance_nonneg[of start finish] by simp
  then have "float_to_int (ccpDistance start finish + 1 / 2) = round (ccpDistance start finish)"
    by (simp add: float_to_int_nonneg round_def)
  then show ?thesis using assms
    by (simp add: DrawLine_def Let_def stamps_def DrawLine_position_def)
qed

text \<open>C3 as amended, at the segment from \<open>(0, 0)\<close> to \<open>(10, 0)\<close>: ten stamps.\<close>

theorem DrawLine_stamps_witness:
  "render_target (capturing_layer (20, 20) [(0, 0)]) = Some \<lparr>rt_node = 0, rt_stamps = []\<rparr>
   \<and> nat (round (ccpDistance (0, 0) (10, 0))) = 10
   \<and> (\<exists>L'. DrawLine (0, 0) (10, 0) (capturing_layer (20, 20) [(0, 0)]) = Inr L'
         \<and> length (stamps L') = length (stamps (capturing_layer (20, 20) [(0, 0)])) + 10
         \<and> points_being_drawn L' = points_being_drawn (capturing_layer (20, 20) [(0, 0)]) @ [(10, 0)])"
proof -
  let ?L = "capturing_layer (20, 20) [(0, 0)]"
  have h: "render_target ?L = Some \<lparr>rt_node = 0, rt_stamps = []\<rparr>" by (simp add: layer_defs)
  have r: "nat (round (ccpDistance (0, 0) (10, 0))) = 10" by (simp add: ccpDistance_horizontal)
  from DrawLine_stamps[OF h, of "(0, 0)" "(10, 0)"] h r show ?thesis by auto
qed

text \<open>
  C3 as stated fails at the segment from \<open>(0, 0)\<close> to \<open>(10, 0)\<close>: its length is 10, the
  claim asks for \<open>round 10 + 1 = 11\<close> stamps, the code makes 10, and none of them is at
  \<open>(10, 0)\<close>.
\<close>

theorem DrawLine_stamps_counterexample:
  "\<exists>L'. DrawLine (0, 0) (10, 0) (capturing_layer (20, 20) [(0, 0)]) = Inr L'
     \<and> ccpDistance (0, 0) (10, 0) = 10
     \<and> length (stamps L') - length (stamps (capturing_layer (20, 20) [(0, 0)])) = 10
     \<and> nat (round (ccpDistance (0, 0) (10, 0))) + 1 = 11
     \<and> (10, 0) \<notin> set (stamps L')"
  by (auto simp: DrawLine_def Let_def stamps_def capturing_layer_def ccpDistance_horizontal float_to_int_def
      DrawLine_position_def)

subsection \<open>C4: short segments are merged\<close>

text \<open>
  C4 as amended: the threshold of the walk is \<open>min_box_length\<close>, the brush radius
  truncated to an integer. A point closer than \<open>min_box_length\<close> to the current segment
  start that is not the final point is skipped (the body and the segment start are
  unchanged); the final point always gets its box; and on the produced body every box
  fixture, except possibly the one ending at the final point (the head of the fixture
  list), has width at least \<open>toSim min_box_length\<close>.
\<close>

theorem short_segments_skipped:
  assumes "points_being_drawn L = pts" and "pts \<noteq> []"
  shows "(\<forall>iter sp b ev. iter < length pts
            \<and> ccpDistance sp (pts ! iter) < real_of_int (min_box_length L)
            \<and> Suc iter \<noteq> length pts \<longrightarrow>
          CreatePhysicsBody_loop L pts iter sp b ev
            = CreatePhysicsBody_loop L pts (Suc iter) sp b (ev @ [int (length pts) - 1]))
     \<and> (\<forall>iter sp b ev. Suc iter = length pts \<longrightarrow>
          fst (CreatePhysicsBody_loop L pts iter sp b ev) = AddLineToBody L b sp (pts ! iter))
     \<and> (\<exists>body L'. CreatePhysicsBody L = Inr (body, L')
          \<and> list_all (\<lambda>f. is_box f \<longrightarrow>
                SCREEN_TO_WORLD (real_of_int (min_box_length L)) \<le> box_width f)
              (tl (m_fixtureList body)))"
proof (intro conjI)
  show "\<forall>iter sp b ev. iter < length pts
            \<and> ccpDistance sp (pts ! iter) < real_of_int (min_box_length L)
            \<and> Suc iter \<noteq> length pts \<longrightarrow>
          CreatePhysicsBody_loop L pts iter sp b ev
            = CreatePhysicsBody_loop L pts (Suc iter) sp b (ev @ [int (length pts) - 1])"
    by (simp add: loop_skip)
  show "\<forall>iter sp b ev. Suc iter = length pts \<longrightarrow>
          fst (CreatePhysicsBody_loop L pts iter sp b ev) = AddLineToBody L b sp (pts ! iter)"
  proof (intro allI impI)
    fix iter sp b ev assume e: "Suc iter = length pts"
    then have "iter < length pts" by simp
    then show "fst (CreatePhysicsBody_loop L pts iter sp b ev) = AddLineToBody L b sp (pts ! iter)"
      using e by (simp add: loop_emit loop_done)
  qed
  obtain body evals new cap where s:
    "CreatePhysicsBody_run L pts = Inr (body, evals)"
    "m_fixtureList body = new @ [cap, cap_fixture L]"
    "\<not> is_box cap"
    "list_all (\<lambda>f. SCREEN_TO_WORLD (real_of_int (min_box_length L)) \<le> box_width f) (tl new)"
    using run_structure[OF assms(2), of L] by blast
  have "set (tl (m_fixtureList body)) \<subseteq> set (tl new) \<union> {cap, cap_fixture L}"
    unfolding s(2) by (cases new) auto
  then have "list_all (\<lambda>f. is_box f \<longrightarrow>
                SCREEN_TO_WORLD (real_of_int (min_box_length L)) \<le> box_width f)
              (tl (m_fixtureList body))"
    using s(3,4) cap_is_circle(2)[of L] by (auto simp: list_all_iff)
  moreover have "CreatePhysicsBody L = Inr (body, L\<lparr>box2d_world := box2d_world L @ [body], points_being_drawn := []\<rparr>)"
    using s(1) assms(1) by (simp add: CreatePhysicsBody_run_eq)
  ultimately show "\<exists>body L'. CreatePhysicsBody L = Inr (body, L')
          \<and> list_all (\<lambda>f. is_box f \<longrightarrow>
                SCREEN_TO_WORLD (real_of_int (min_box_length L)) \<le> box_width f)
              (tl (m_fixtureList body))"
    by blast
qed

text \<open>
  C4 as amended, at the stroke \<open>(0, 0), (5, 0), (40, 0)\<close> with a brush of radius 10.5:
  the second point is closer than 10 to the first.
\<close>

theorem short_segments_skipped_witness:
  "points_being_drawn (capturing_layer (21, 21) [(0, 0), (5, 0), (40, 0)]) = [(0, 0), (5, 0), (40, 0)]
   \<and> [(0, 0), (5, 0), (40, 0)] \<noteq> ([] :: CCPoint list)
   \<and> ccpDistance (0, 0) ([(0, 0), (5, 0), (40, 0)] ! 1)
        < real_of_int (min_box_length (capturing_layer (21, 21) [(0, 0), (5, 0), (40, 0)]))
   \<and> (\<exists>body L'. CreatePhysicsBody (capturing_layer (21, 21) [(0, 0), (5, 0), (40, 0)]) = Inr (body, L')
         \<and> list_all (\<lambda>f. is_box f \<longrightarrow>
                SCREEN_TO_WORLD (real_of_int (min_box_length (capturing_layer (21, 21) [(0, 0), (5, 0), (40, 0)])))
                  \<le> box_width f)
              (tl (m_fixtureList body)))"
proof -
  let ?L = "capturing_layer (21, 21) [(0, 0), (5, 0), (40, 0)]"
  have h1: "points_being_drawn ?L = [(0, 0), (5, 0), (40, 0)]" by (simp add: layer_defs)
  have h2: "[(0, 0), (5, 0), (40, 0)] \<noteq> ([] :: CCPoint list)" by simp
  have h3: "ccpDistance (0, 0) ([(0, 0), (5, 0), (40, 0)] ! 1) < real_of_int (min_box_length ?L)"
    by (simp add: layer_defs ccpDistance_horizontal min_box_length_def float_to_int_def)
  from short_segments_skipped[OF h1 h2] h1 h2 h3 show ?thesis by blast
qed

text \<open>
  C4 as stated fails for a brush of radius 10.5 (an image 21 pixels wide) and the stroke
  \<open>(0, 0), (10.25, 0), (40, 0)\<close>: the second point is closer than the brush radius to
  the first and is not the final point, yet it is not skipped, since \<open>min_box_length\<close>
  is 10. The body has two boxes, and the first one, which does not end at the final
  point, is narrower than \<open>toSim 10.5\<close>.
\<close>

theorem short_segments_counterexample:
  "\<exists>body L'. CreatePhysicsBody (capturing_layer (21, 21) [(0, 0), (41 / 4, 0), (40, 0)]) = Inr (body, L')
     \<and> ccpDistance (0, 0) (41 / 4, 0) < brush_radius (capturing_layer (21, 21) [(0, 0), (41 / 4, 0), (40, 0)])
     \<and> length (box_fixtures body) = 2
     \<and> is_box (m_fixtureList body ! 1)
     \<and> box_width (m_fixtureList body ! 1)
          < SCREEN_TO_WORLD (brush_radius (capturing_layer (21, 21) [(0, 0), (41 / 4, 0), (40, 0)]))"
  by (simp add: CreatePhysicsBody_def CreatePhysicsBody_run_def Let_def capturing_layer_def idle_layer_def
      init_def CreatePhysicsBody_loop.simps min_box_length_def float_to_int_def ccpDistance_horizontal
      AddLineToBody_def AddSphereToBody_def AddShapeToBody_def CreateFixture_def CreateBody_def
      GetPosition_def box_fixtures_def SCREEN_TO_WORLD_def PTM_RATIO_def)

subsection \<open>C5: a stroke of one point\<close>

text \<open>
  C5: from a stroke of exactly one point \<open>p\<close>, \<open>CreatePhysicsBody\<close> makes a body with
  exactly two fixtures, both the same circle: its radius is \<open>toSim brush_radius\<close> and its
  centre is the origin of the body, which the body's transform takes to \<open>toSim p\<close>.
  The body has no box fixture.
\<close>

theorem one_point_stroke:
  assumes "points_being_drawn L = [p]"
  shows "\<exists>body L'. CreatePhysicsBody L = Inr (body, L')
     \<and> m_fixtureList body = [cap_fixture L, cap_fixture L]
     \<and> length (circle_fixtures body) = 2 \<and> box_fixtures body = []
     \<and> m_radius (shape (cap_fixture L)) = SCREEN_TO_WORLD (brush_radius L)
     \<and> b2Mul (m_xf body) (m_p (shape (cap_fixture L))) = (SCREEN_TO_WORLD (fst p), SCREEN_TO_WORLD (snd p))
     \<and> GetPosition body = (SCREEN_TO_WORLD (fst p), SCREEN_TO_WORLD (snd p))"
proof -
  obtain body evals new cap where s:
    "CreatePhysicsBody_run L [p] = Inr (body, evals)"
    "m_xf body = \<lparr>xf_p = (SCREEN_TO_WORLD (fst (hd [p])), SCREEN_TO_WORLD (snd (hd [p]))), xf_q = (0, 1)\<rparr>"
    "m_fixtureList body = new @ [cap, cap_fixture L]"
    "length [p] = 1 \<longrightarrow> cap = cap_fixture L" "length [p] = 1 \<longrightarrow> new = []"
    using run_structure[of "[p]" L] by blast
  have fl: "m_fixtureList body = [cap_fixture L, cap_fixture L]" using s(3,4,5) by simp
  have "CreatePhysicsBody L = Inr (body, L\<lparr>box2d_world := box2d_world L @ [body], points_being_drawn := []\<rparr>)"
    using s(1) assms by (simp add: CreatePhysicsBody_run_eq)
  moreover have "length (circle_fixtures body) = 2" "box_fixtures body = []"
    by (simp_all add: circle_fixtures_def box_fixtures_def fl cap_is_circle)
  moreover have "m_radius (shape (cap_fixture L)) = SCREEN_TO_WORLD (brush_radius L)"
    by (simp add: cap_fixture_def)
  moreover have "b2Mul (m_xf body) (m_p (shape (cap_fixture L))) = (SCREEN_TO_WORLD (fst p), SCREEN_TO_WORLD (snd p))"
    by (simp add: s(2) cap_fixture_def b2Mul_def)
  moreover have "GetPosition body = (SCREEN_TO_WORLD (fst p), SCREEN_TO_WORLD (snd p))"
    by (simp add: GetPosition_def s(2))
  ultimately show ?thesis using fl by blast
qed

text \<open>C5 at the stroke \<open>(100, 100)\<close>.\<close>

theorem one_point_stroke_witness:
  "points_being_drawn (capturing_layer (20, 20) [(100, 100)]) = [(100, 100)]
   \<and> (\<exists>body L'. CreatePhysicsBody (capturing_layer (20, 20) [(100, 100)]) = Inr (body, L')
        \<and> m_fixtureList body = [cap_fixture (capturing_layer (20, 20) [(100, 100)]),
                                 cap_fixture (capturing_layer (20, 20) [(100, 100)])]
        \<and> length (circle_fixtures body) = 2 \<and> box_fixtures body = [])"
proof -
  let ?L = "capturing_layer (20, 20) [(100, 100)]"
  have h1: "points_being_drawn ?L = [(100, 100)]" by (simp add: layer_defs)
  from one_point_stroke[OF h1] h1 show ?thesis by blast
qed

subsection \<open>C6: a straight stroke of evenly spaced points\<close>

text \<open>
  C6: from a straight stroke of \<open>N \<ge> 2\<close> points, each the one before it moved by \<open>d\<close>,
  with \<open>d\<close> longer than the brush radius, \<open>CreatePhysicsBody\<close> makes a body with exactly
  \<open>N - 1\<close> box fixtures and exactly 2 circle fixtures.
\<close>

theorem straight_stroke_fixtures:
  assumes "2 \<le> N" and "brush_radius L < ccpDistance (0, 0) d"
    and "points_being_drawn L = straight_stroke p d N"
  shows "\<exists>body L'. CreatePhysicsBody L = Inr (body, L')
     \<and> length (box_fixtures body) = N - 1 \<and> length (circle_fixtures body) = 2"
proof -
  let ?pts = "straight_stroke p d N"
  have len: "length ?pts = N" by (simp add: straight_stroke_def)
  then have ne: "?pts \<noteq> []" using assms(1) by auto
  obtain body evals new cap where s:
    "CreatePhysicsBody_run L ?pts = Inr (body, evals)"
    "m_fixtureList body = new @ [cap, cap_fixture L]"
    "is_circle cap" "\<not> is_box cap" "list_all is_box new"
    using run_structure[OF ne, of L] by blast
  have far: "\<forall>k. 1 \<le> k \<and> k < length ?pts \<longrightarrow>
      \<not> ccpDistance (?pts ! (k - 1)) (?pts ! k) < real_of_int (min_box_length L)"
  proof (intro allI impI)
    fix k assume k: "1 \<le> k \<and> k < length ?pts"
    then have "ccpDistance (?pts ! (k - 1)) (?pts ! k) = ccpDistance (0, 0) d"
      using straight_stroke_spacing[of k N p d] len by simp
    moreover have "real_of_int (min_box_length L) \<le> max (brush_radius L) 0"
      unfolding min_box_length_def by (rule float_to_int_le)
    moreover have "0 \<le> ccpDistance (0, 0) d" by (rule ccpDistance_nonneg)
    ultimately show "\<not> ccpDistance (?pts ! (k - 1)) (?pts ! k) < real_of_int (min_box_length L)"
      using assms(2) by linarith
  qed
  let ?sp = "hd ?pts"
  let ?b2 = "AddSphereToBody L (AddSphereToBody L (CreateBody (SCREEN_TO_WORLD (fst ?sp), SCREEN_TO_WORLD (snd ?sp))) ?sp) (last ?pts)"
  have hd0: "?sp = ?pts ! (1 - 1)" using ne by (simp add: hd_conv_nth)
  have "length (m_fixtureList (fst (CreatePhysicsBody_loop L ?pts 1 ?sp ?b2 [])))
      = (length ?pts - 1) + length (m_fixtureList ?b2)"
    by (rule loop_no_skip_count[OF far hd0])
  moreover have "CreatePhysicsBody_run L ?pts = Inr (CreatePhysicsBody_loop L ?pts 1 ?sp ?b2 [])"
    using ne by (simp add: CreatePhysicsBody_run_def Let_def)
  moreover have "length (m_fixtureList ?b2) = 2"
    by (simp add: AddSphereToBody_def AddShapeToBody_def CreateFixture_def CreateBody_def)
  moreover have "fst (CreatePhysicsBody_loop L ?pts 1 ?sp ?b2 []) = body"
    using s(1) ne by (simp add: CreatePhysicsBody_run_def Let_def prod_eq_iff)
  ultimately have "length (m_fixtureList body) = (N - 1) + 2" using len by simp
  then have ln: "length new = N - 1" using s(2) by simp
  have fb: "filter is_box new = new" "filter is_circle new = []"
    using s(5) by (auto simp: list_all_iff box_not_circle)
  have "length (box_fixtures body) = N - 1"
    using s(4) ln by (simp add: box_fixtures_def s(2) fb cap_is_circle)
  moreover have "length (circle_fixtures body) = 2"
    using s(3) by (simp add: circle_fixtures_def s(2) fb cap_is_circle)
  moreover have "CreatePhysicsBody L = Inr (body, L\<lparr>box2d_world := box2d_world L @ [body], points_being_drawn := []\<rparr>)"
    using s(1) assms(3) by (simp add: CreatePhysicsBody_run_eq)
  ultimately show ?thesis by blast
qed

text \<open>C6 at the three points \<open>(0, 0), (20, 0), (40, 0)\<close> with a brush of radius 10.\<close>

theorem straight_stroke_fixtures_witness:
  "(2::nat) \<le> 3
   \<and> brush_radius (capturing_layer (20, 20) (straight_stroke (0, 0) (20, 0) 3)) < ccpDistance (0, 0) (20, 0)
   \<and> points_being_drawn (capturing_layer (20, 20) (straight_stroke (0, 0) (20, 0) 3))
        = straight_stroke (0, 0) (20, 0) 3
   \<and> straight_stroke (0, 0) (20, 0) 3 = [(0, 0), (20, 0), (40, 0)]
   \<and> (\<exists>body L'. CreatePhysicsBody (capturing_layer (20, 20) (straight_stroke (0, 0) (20, 0) 3)) = Inr (body, L')
        \<and> length (box_fixtures body) = 3 - 1 \<and> length (circle_fixtures body) = 2)"
proof -
  let ?L = "capturing_layer (20, 20) (straight_stroke (0, 0) (20, 0) 3)"
  have h1: "(2::nat) \<le> 3" by simp
  have h2: "brush_radius ?L < ccpDistance (0, 0) (20, 0)"
    by (simp add: layer_defs ccpDistance_horizontal)
  have h3: "points_being_drawn ?L = straight_stroke (0, 0) (20, 0) 3" by (simp add: layer_defs)
  have h4: "straight_stroke (0, 0) (20, 0) 3 = [(0, 0), (20, 0), (40, 0)]"
    by (simp add: straight_stroke_def upt_rec)
  from straight_stroke_fixtures[OF h1 h2 h3] h1 h2 h3 h4 show ?thesis by blast
qed

subsection \<open>C7: a second begin during a gesture\<close>

text \<open>
  C7: while a gesture is in progress (\<open>current_touch_id\<close> is not \<open>-1\<close>), \<open>ccTouchBegan\<close>
  returns \<open>false\<close> and leaves the whole layer unchanged, so also the points, the render
  target and the touch id of the gesture in progress; and once \<open>ccTouchEnded\<close> has
  returned, \<open>ccTouchBegan\<close> starts a new gesture.
\<close>

theorem second_begin_refused:
  assumes "current_touch_id L \<noteq> - 1"
  shows "ccTouchBegan touch L = Inr (False, L)
     \<and> (\<forall>t L'. ccTouchEnded t L = Inr L' \<longrightarrow>
          (\<exists>L''. ccTouchBegan touch L' = Inr (True, L'') \<and> current_touch_id L'' = touch_id touch))"
proof
  show "ccTouchBegan touch L = Inr (False, L)" using assms by (simp add: ccTouchBegan_def)
  show "\<forall>t L'. ccTouchEnded t L = Inr L' \<longrightarrow>
          (\<exists>L''. ccTouchBegan touch L' = Inr (True, L'') \<and> current_touch_id L'' = touch_id touch)"
  proof (intro allI impI)
    fix t L' assume "ccTouchEnded t L = Inr L'"
    then have "current_touch_id L' = - 1 \<and> render_target L' = None"
      by (auto simp: ccTouchEnded_def Let_def split: if_splits sum.splits prod.splits option.splits)
    then show "\<exists>L''. ccTouchBegan touch L' = Inr (True, L'') \<and> current_touch_id L'' = touch_id touch"
      by (simp add: ccTouchBegan_def CreateRenderTarget_def DrawPoint_def addChild_def Let_def)
  qed
qed

text \<open>C7 at a layer in the middle of a gesture of touch 0 that has one point.\<close>

theorem second_begin_refused_witness:
  "current_touch_id (capturing_layer (20, 20) [(100, 100)]) \<noteq> - 1
   \<and> ccTouchBegan (touch0 (50, 50)) (capturing_layer (20, 20) [(100, 100)])
        = Inr (False, capturing_layer (20, 20) [(100, 100)])
   \<and> (\<exists>L'. ccTouchEnded (touch0 (100, 100)) (capturing_layer (20, 20) [(100, 100)]) = Inr L'
        \<and> (\<exists>L''. ccTouchBegan (touch0 (50, 50)) L' = Inr (True, L'')))"
proof -
  let ?L = "capturing_layer (20, 20) [(100, 100)]"
  have h1: "current_touch_id ?L \<noteq> - 1" by (simp add: layer_defs)
  obtain L' where e: "ccTouchEnded (touch0 (100, 100)) ?L = Inr L'"
    using ccTouchEnded_succeeds[of "touch0 (100, 100)" ?L "\<lparr>rt_node = 0, rt_stamps = []\<rparr>"]
    by (auto simp: layer_defs touch0_def)
  from second_begin_refused[OF h1, of "touch0 (50, 50)"] h1 e show ?thesis by blast
qed

subsection \<open>C8: the comparison with end() - 1\<close>

text \<open>
  C8: for a non-empty sequence of points \<open>CreatePhysicsBody\<close> returns a body, and each
  time the comparison \<^verbatim>\<open>iter != points_being_drawn_.end() - 1\<close> is evaluated the
  sequence has at least 2 elements and \<^verbatim>\<open>end() - 1\<close> is the offset \<open>length - 1 \<ge> 0\<close>,
  not before the start; for a sequence of one element it is never evaluated.
\<close>

theorem end_minus_one_in_range:
  assumes "pts \<noteq> []"
  shows "\<exists>body evals. CreatePhysicsBody_run L pts = Inr (body, evals)
     \<and> list_all (\<lambda>e. 2 \<le> length pts \<and> e = int (length pts) - 1 \<and> 0 \<le> e) evals
     \<and> (length pts = 1 \<longrightarrow> evals = [])"
proof -
  let ?sp = "hd pts"
  let ?b2 = "AddSphereToBody L (AddSphereToBody L (CreateBody (SCREEN_TO_WORLD (fst ?sp), SCREEN_TO_WORLD (snd ?sp))) ?sp) (last pts)"
  have run: "CreatePhysicsBody_run L pts = Inr (CreatePhysicsBody_loop L pts 1 ?sp ?b2 [])"
    using assms by (simp add: CreatePhysicsBody_run_def Let_def)
  obtain new where new: "snd (CreatePhysicsBody_loop L pts 1 ?sp ?b2 []) = [] @ new"
    "list_all (\<lambda>e. e = int (length pts) - 1) new" "new \<noteq> [] \<longrightarrow> 1 < length pts"
    using loop_evals[of L pts 1 ?sp ?b2 "[]"] by blast
  have "CreatePhysicsBody_run L pts = Inr (fst (CreatePhysicsBody_loop L pts 1 ?sp ?b2 []), new)"
    using run new(1) by (simp add: prod_eq_iff)
  moreover have "list_all (\<lambda>e. 2 \<le> length pts \<and> e = int (length pts) - 1 \<and> 0 \<le> e) new"
  proof (cases new)
    case Nil
    then show ?thesis by simp
  next
    case (Cons e es)
    then have "1 < length pts" using new(3) by simp
    then have g: "2 \<le> length pts" "0 \<le> int (length pts) - 1" by linarith+
    show ?thesis unfolding list_all_iff
    proof
      fix e assume "e \<in> set new"
      then have "e = int (length pts) - 1" using new(2) by (simp add: list_all_iff)
      then show "2 \<le> length pts \<and> e = int (length pts) - 1 \<and> 0 \<le> e" using g by blast
    qed
  qed
  moreover have "length pts = 1 \<longrightarrow> new = []" using new(3) by auto
  ultimately show ?thesis by blast
qed

text \<open>
  C8 at the stroke \<open>(0, 0), (5, 0), (40, 0)\<close> with a brush of radius 10: the comparison
  is evaluated once, at the second point, with \<^verbatim>\<open>end() - 1\<close> at offset 2.
\<close>

theorem end_minus_one_in_range_witness:
  "[(0, 0), (5, 0), (40, 0)] \<noteq> ([] :: CCPoint list)
   \<and> (\<exists>body. CreatePhysicsBody_run (idle_layer (20, 20)) [(0, 0), (5, 0), (40, 0)] = Inr (body, [2]))
   \<and> (\<exists>body evals. CreatePhysicsBody_run (idle_layer (20, 20)) [(0, 0), (5, 0), (40, 0)] = Inr (body, evals)
        \<and> list_all (\<lambda>e. 2 \<le> length [(0, 0), (5, 0), (40, 0) :: CCPoint]
                       \<and> e = int (length [(0, 0), (5, 0), (40, 0) :: CCPoint]) - 1 \<and> 0 \<le> e) evals)"
proof -
  have h1: "[(0, 0), (5, 0), (40, 0)] \<noteq> ([] :: CCPoint list)" by simp
  have ev: "\<exists>body. CreatePhysicsBody_run (idle_layer (20, 20)) [(0, 0), (5, 0), (40, 0)] = Inr (body, [2])"
    by (simp add: CreatePhysicsBody_run_def Let_def idle_layer_def init_def CreatePhysicsBody_loop.simps
        min_box_length_def float_to_int_def ccpDistance_horizontal)
  from end_minus_one_in_range[OF h1, of "idle_layer (20, 20)"] h1 ev show ?thesis by blast
qed

subsection \<open>C9: the coordinate conversion\<close>

text \<open>
  C9: the conversion is a scale by the fixed ratio 32, \<open>toSim x = x / 32\<close> and
  \<open>toScreen x = x * 32\<close>, with no clamping and no rounding, and
  \<open>toScreen (toSim x) = x\<close> for every \<open>x\<close>.
\<close>

theorem conversion_round_trip:
  "PTM_RATIO = 32 \<and> SCREEN_TO_WORLD x = x / PTM_RATIO \<and> WORLD_TO_SCREEN x = x * PTM_RATIO
   \<and> WORLD_TO_SCREEN (SCREEN_TO_WORLD x) = x"
  by (simp add: SCREEN_TO_WORLD_def WORLD_TO_SCREEN_def PTM_RATIO_def)

subsection \<open>C10: ToggleDebug twice\<close>

text \<open>
  C10 as amended. For every layer state: \<open>ToggleDebug\<close> applied twice restores the debug
  flag and keeps the children and the render target; one \<open>ToggleDebug\<close> never changes
  the visibility of the render-target child; and after two applications the visibility
  of a node is the original one exactly when the node is not a child other than the
  render target, or was visible exactly when debugging was off. Hence, in a state where
  every child other than the render target is visible exactly when debugging is off
  (every state the layer reaches, by \<open>reachable_follow_debug\<close>), \<open>ToggleDebug\<close> applied
  twice gives back the same state, so the visibility of every child.
\<close>

theorem ToggleDebug_twice:
  "debug_enabled (ToggleDebug (ToggleDebug L)) = debug_enabled L
   \<and> children (ToggleDebug L) = children L
   \<and> render_target (ToggleDebug L) = render_target L
   \<and> (\<forall>n. Some n = map_option rt_node (render_target L) \<longrightarrow>
          visible (ToggleDebug L) n = visible L n
          \<and> visible (ToggleDebug (ToggleDebug L)) n = visible L n)
   \<and> (\<forall>n. (visible (ToggleDebug (ToggleDebug L)) n = visible L n)
          = (n \<in> set (case children L of None \<Rightarrow> [] | Some cs \<Rightarrow> cs)
               \<and> Some n \<noteq> map_option rt_node (render_target L)
             \<longrightarrow> visible L n = (\<not> debug_enabled L)))
   \<and> (children_follow_debug L \<longrightarrow> ToggleDebug (ToggleDebug L) = L)"
proof (intro conjI)
  show "debug_enabled (ToggleDebug (ToggleDebug L)) = debug_enabled L"
    by (simp add: ToggleDebug_eq)
  show "children (ToggleDebug L) = children L"
    by (simp add: ToggleDebug_eq)
  show "render_target (ToggleDebug L) = render_target L"
    by (simp add: ToggleDebug_eq)
  show "\<forall>n. Some n = map_option rt_node (render_target L) \<longrightarrow>
          visible (ToggleDebug L) n = visible L n
          \<and> visible (ToggleDebug (ToggleDebug L)) n = visible L n"
    by (simp add: ToggleDebug_eq)
  show "\<forall>n. (visible (ToggleDebug (ToggleDebug L)) n = visible L n)
          = (n \<in> set (case children L of None \<Rightarrow> [] | Some cs \<Rightarrow> cs)
               \<and> Some n \<noteq> map_option rt_node (render_target L)
             \<longrightarrow> visible L n = (\<not> debug_enabled L))"
    by (cases "children L") (auto simp: ToggleDebug_eq)
  show "children_follow_debug L \<longrightarrow> ToggleDebug (ToggleDebug L) = L"
  proof
    assume inv: "children_follow_debug L"
    have v: "\<And>n cs. children L = Some cs \<Longrightarrow> n \<in> set cs \<Longrightarrow>
        Some n \<noteq> map_option rt_node (render_target L) \<Longrightarrow> visible L n = (\<not> debug_enabled L)"
      using inv by (auto simp: children_follow_debug_def list_all_iff)
    have "visible (ToggleDebug (ToggleDebug L)) = visible L"
    proof
      fix n show "visible (ToggleDebug (ToggleDebug L)) n = visible L n"
        using v[of _ n] by (cases "children L") (auto simp: ToggleDebug_eq)
    qed
    then show "ToggleDebug (ToggleDebug L) = L"
      by (simp add: ToggleDebug_eq)
  qed
qed

text \<open>
  C10 as amended, at a layer in the middle of a gesture with the render target, node 0,
  and one more child, node 3, both visible while debugging is off: one \<open>ToggleDebug\<close>
  hides node 3 and not node 0, and two give back the layer.
\<close>

theorem ToggleDebug_twice_witness:
  "children_follow_debug ((capturing_layer (20, 20) [(0, 0)])\<lparr>children := Some [0, 3]\<rparr>)
   \<and> Some 0 = map_option rt_node
        (render_target ((capturing_layer (20, 20) [(0, 0)])\<lparr>children := Some [0, 3]\<rparr>))
   \<and> ToggleDebug (ToggleDebug ((capturing_layer (20, 20) [(0, 0)])\<lparr>children := Some [0, 3]\<rparr>))
        = (capturing_layer (20, 20) [(0, 0)])\<lparr>children := Some [0, 3]\<rparr>
   \<and> visible (ToggleDebug ((capturing_layer (20, 20) [(0, 0)])\<lparr>children := Some [0, 3]\<rparr>)) 0
        = visible ((capturing_layer (20, 20) [(0, 0)])\<lparr>children := Some [0, 3]\<rparr>) 0
   \<and> visible ((capturing_layer (20, 20) [(0, 0)])\<lparr>children := Some [0, 3]\<rparr>) 0 = True
   \<and> visible (ToggleDebug ((capturing_layer (20, 20) [(0, 0)])\<lparr>children := Some [0, 3]\<rparr>)) 3 = False"
proof -
  let ?L = "(capturing_layer (20, 20) [(0, 0)])\<lparr>children := Some [0, 3]\<rparr>"
  have h1: "children_follow_debug ?L" by (simp add: children_follow_debug_def layer_defs)
  have h2: "Some 0 = map_option rt_node (render_target ?L)" by (simp add: layer_defs)
  have v: "visible ?L 0 = True" "visible (ToggleDebug ?L) 3 = False"
    by (simp_all add: ToggleDebug_eq layer_defs)
  from ToggleDebug_twice[of ?L] h1 h2 v show ?thesis by blast
qed

text \<open>
  C10 as stated fails at a layer whose child, node 7, is hidden while debugging is off:
  after \<open>ToggleDebug\<close> twice the child is visible.
\<close>

theorem ToggleDebug_twice_counterexample:
  "children hidden_child_layer = Some [7]
   \<and> visible hidden_child_layer 7 = False
   \<and> visible (ToggleDebug (ToggleDebug hidden_child_layer)) 7 = True"
  by (simp add: ToggleDebug_eq hidden_child_layer_def idle_layer_def init_def)

end
